theory Spec2Isabelle
  imports
    Main
    "HOL-Library.AList"
    "HOL-Library.Sublist"
    "HOL-Library.Char_ord"
    "HOL-Library.List_Lexorder"
    "HOL-Library.Product_Lexorder"
begin

section \<open>Python values, errors and dictionaries\<close>

text \<open>
  Plain Python data (what \<open>json.dumps\<close> accepts): the values of Inputs, configs and every
  exported form. A dict is an association list in insertion order, as Python iterates it.
\<close>

datatype json =
    JNull
  | JBool bool
  | JInt int
  | JStr string
  | JList "json list"
  | JDict "(string \<times> json) list"

type_synonym 'v dict = "(string \<times> 'v) list"

text \<open>
  The exceptions the modelled code can raise. \<open>OutsideModel\<close> is not a Python exception:
  it marks a call after which Python holds an object that the typed records below cannot
  represent (a field filled, unchecked, with a value of another type than annotated).
\<close>

datatype error =
    NameError string
  | UnboundLocalError string
  | KeyError string
  | TypeError string
  | AttributeError string
  | ValueError string
  | OutsideModel string

fun mapE :: "('a \<Rightarrow> error + 'b) \<Rightarrow> 'a list \<Rightarrow> error + 'b list" where
  "mapE f [] = Inr []"
| "mapE f (x # xs) =
     (case f x of
        Inl e \<Rightarrow> Inl e
      | Inr y \<Rightarrow> (case mapE f xs of Inl e \<Rightarrow> Inl e | Inr ys \<Rightarrow> Inr (y # ys)))"

definition bindE :: "error + 'a \<Rightarrow> ('a \<Rightarrow> error + 'b) \<Rightarrow> error + 'b" where
  "bindE m f = (case m of Inl e \<Rightarrow> Inl e | Inr x \<Rightarrow> f x)"

text \<open>The truth value of plain data (\<open>not x\<close> is its negation).\<close>

fun truthy :: "json \<Rightarrow> bool" where
  "truthy JNull = False"
| "truthy (JBool b) = b"
| "truthy (JInt i) = (i \<noteq> 0)"
| "truthy (JStr s) = (s \<noteq> [])"
| "truthy (JList xs) = (xs \<noteq> [])"
| "truthy (JDict kvs) = (kvs \<noteq> [])"

text \<open>\<open>d[k] = v\<close>: an existing key keeps its position, a new key goes last.\<close>

definition dict_set :: "'v dict \<Rightarrow> string \<Rightarrow> 'v \<Rightarrow> 'v dict" where
  "dict_set d k v = AList.update k v d"

text \<open>\<open>d.setdefault(k, v)\<close>, for its effect on \<open>d\<close>.\<close>

definition dict_setdefault :: "'v dict \<Rightarrow> string \<Rightarrow> 'v \<Rightarrow> 'v dict" where
  "dict_setdefault d k v = (case map_of d k of None \<Rightarrow> d @ [(k, v)] | Some _ \<Rightarrow> d)"

text \<open>\<open>{key(x): val(x) for x in xs}\<close>.\<close>

definition dict_comprehension :: "('a \<Rightarrow> string) \<Rightarrow> ('a \<Rightarrow> 'v) \<Rightarrow> 'a list \<Rightarrow> 'v dict" where
  "dict_comprehension key val xs = fold (\<lambda>x d. dict_set d (key x) (val x)) xs []"

text \<open>
  \<open>a == b\<close> on dicts: the same number of keys, and every key of \<open>a\<close> is bound in \<open>b\<close> to an
  equal value; the order of insertion plays no part.
\<close>

definition dict_eq :: "('v \<Rightarrow> 'w \<Rightarrow> bool) \<Rightarrow> 'v dict \<Rightarrow> 'w dict \<Rightarrow> bool" where
  "dict_eq veq a b =
     (length a = length b \<and>
      list_all (\<lambda>(k, v). case map_of b k of None \<Rightarrow> False | Some w \<Rightarrow> veq v w) a)"

text \<open>What holds of every Python dict: each key is there once.\<close>

definition dict_ok :: "'v dict \<Rightarrow> bool" where
  "dict_ok d = distinct (map fst d)"

text \<open>
  \<open>list(set(xs))\<close>: the elements of \<open>xs\<close>, each once, in the iteration order of the set.
  Python leaves that order unspecified (it follows the hashes, which change from one
  process to the next); here a ranking \<open>rank\<close> fixes it, and every theorem below holds for
  all rankings.
\<close>

definition list_of_set :: "('a \<Rightarrow> nat) \<Rightarrow> 'a list \<Rightarrow> 'a list" where
  "list_of_set rank xs = sort_key rank (remdups xs)"

section \<open>Definition\<close>

text \<open>
  The class object of a NamedTuple that a Definition carries as its \<open>spec\<close>. Python
  compares classes by identity, so the class is modelled by its identity alone.
\<close>

datatype spec_class = SpecClass nat

record Definition =
  name :: string
  primitive :: string
  lock :: bool
  spec :: "spec_class option"

text \<open>
  What the code takes from the Python runtime:
  \<^item> \<open>spec_describe\<close>: the dict of \<open>__qualname__\<close>, \<open>_field_types\<close> and \<open>_field_defaults\<close>
    that \<open>Definition.export\<close> reads off a spec class by reflection;
  \<^item> \<open>spec_build\<close>: the class that \<open>Definition._fromdict\<close> creates with \<open>type(...)\<close> from
    such a dict, or the exception of that call;
  \<^item> \<open>uuid4\<close>: the \<open>n\<close>-th string drawn from \<open>uuid.uuid4()\<close>;
  \<^item> \<open>definition_rank\<close>, \<open>input_rank\<close>: the iteration order of sets of Definitions and
    of Inputs.
\<close>

record runtime =
  spec_describe :: "spec_class \<Rightarrow> json"
  spec_build :: "json \<Rightarrow> error + spec_class"
  uuid4 :: "nat \<Rightarrow> string"
  definition_rank :: "Definition \<Rightarrow> nat"
  input_rank :: "nat \<Rightarrow> nat"

definition Definition_export :: "runtime \<Rightarrow> Definition \<Rightarrow> json dict" where
  "Definition_export rt d =
     [(''name'', JStr (Definition.name d)), (''primitive'', JStr (primitive d))]
     @ (if lock d then [(''lock'', JBool True)] else [])
     @ (case spec d of None \<Rightarrow> [] | Some s \<Rightarrow> [(''spec'', spec_describe rt s)])"

text \<open>
  \<open>cls(**kwargs)\<close> for Definition: the keywords are its four fields, \<open>name\<close> and
  \<open>primitive\<close> have no default.
\<close>

definition Definition_new :: "json dict \<Rightarrow> spec_class option \<Rightarrow> error + Definition" where
  "Definition_new kwargs sp =
     (if \<not> list_all (\<lambda>(k, _). k \<in> set [''name'', ''primitive'', ''lock'', ''spec'']) kwargs
      then Inl (TypeError ''__new__() got an unexpected keyword argument'')
      else case (map_of kwargs ''name'', map_of kwargs ''primitive'') of
        (Some (JStr n), Some (JStr p)) \<Rightarrow>
          (case map_of kwargs ''lock'' of
             None \<Rightarrow> Inr \<lparr>Definition.name = n, primitive = p, lock = False, spec = sp\<rparr>
           | Some (JBool b) \<Rightarrow> Inr \<lparr>Definition.name = n, primitive = p, lock = b, spec = sp\<rparr>
           | Some _ \<Rightarrow> Inl (OutsideModel ''lock is not a bool''))
      | (None, _) \<Rightarrow> Inl (TypeError ''__new__() missing required argument'')
      | (_, None) \<Rightarrow> Inl (TypeError ''__new__() missing required argument'')
      | _ \<Rightarrow> Inl (OutsideModel ''name or primitive is not a str''))"

definition Definition_fromdict :: "runtime \<Rightarrow> json dict \<Rightarrow> error + Definition" where
  "Definition_fromdict rt kwargs =
     (case map_of kwargs ''spec'' of
        None \<Rightarrow> Definition_new kwargs None
      | Some j \<Rightarrow>
          (case spec_build rt j of
             Inl e \<Rightarrow> Inl e
           | Inr c \<Rightarrow> Definition_new kwargs (Some c)))"

section \<open>Stage and Operation\<close>

datatype Stage = PROCESSING | CLEANUP | OUTPUT

fun Stage_value :: "Stage \<Rightarrow> string" where
  "Stage_value PROCESSING = ''processing''"
| "Stage_value CLEANUP = ''cleanup''"
| "Stage_value OUTPUT = ''output''"

text \<open>\<open>str.upper\<close> on ASCII letters (the member names of Stage are ASCII).\<close>

definition upper :: "string \<Rightarrow> string" where
  "upper s =
     map (\<lambda>c. case map_of (zip ''abcdefghijklmnopqrstuvwxyz'' ''ABCDEFGHIJKLMNOPQRSTUVWXYZ'') c of
                 None \<Rightarrow> c | Some u \<Rightarrow> u) s"

text \<open>\<open>Stage[key]\<close>: the member of that name.\<close>

definition Stage_getitem :: "string \<Rightarrow> error + Stage" where
  "Stage_getitem key =
     (if key = ''PROCESSING'' then Inr PROCESSING
      else if key = ''CLEANUP'' then Inr CLEANUP
      else if key = ''OUTPUT'' then Inr OUTPUT
      else Inl (KeyError key))"

text \<open>
  An entry of \<open>Operation.conditions\<close>: a Definition, as the annotation says, or the value
  that \<open>Operation._fromdict\<close> leaves there as it came (it converts inputs and outputs only).
\<close>

datatype condition = Condition Definition | Unconverted json

record Operation =
  name :: string
  inputs :: "Definition dict"
  outputs :: "Definition dict"
  stage :: Stage
  conditions :: "condition list"
  expand :: "string list"
  instance_name :: "string option"

text \<open>\<open>definition.name\<close> on an entry of \<open>conditions\<close>.\<close>

fun condition_name :: "condition \<Rightarrow> error + string" where
  "condition_name (Condition d) = Inr (Definition.name d)"
| "condition_name (Unconverted j) = Inl (AttributeError ''object has no attribute name'')"

text \<open>
  The loop of \<open>Operation.export\<close> over \<open>["inputs", "outputs"]\<close>, for one of the two: every
  Definition of the dict is replaced by its export.
\<close>

definition export_ports :: "runtime \<Rightarrow> Definition dict \<Rightarrow> json" where
  "export_ports rt ports = JDict (map (\<lambda>(k, d). (k, JDict (Definition_export rt d))) ports)"

definition Operation_export :: "runtime \<Rightarrow> Operation \<Rightarrow> error + json dict" where
  "Operation_export rt operation =
     (case mapE condition_name (conditions operation) of
        Inl e \<Rightarrow> Inl e
      | Inr names \<Rightarrow>
          Inr ([(''name'', JStr (Operation.name operation)),
                (''inputs'', export_ports rt (inputs operation)),
                (''outputs'', export_ports rt (outputs operation))]
               @ (if names = [] then [] else [(''conditions'', JList (map JStr names))])
               @ [(''stage'', JStr (Stage_value (stage operation)))]
               @ (if expand operation = [] then []
                  else [(''expand'', JList (map JStr (expand operation)))])))"

section \<open>Input\<close>

text \<open>
  An Input object. Python holds \<open>parents\<close> as references to other Input objects: here an
  object is named by its address, and a heap gives the object at each address.
\<close>

record Input =
  "value" :: json
  "definition" :: Definition
  parents :: "nat list"
  uid :: string

definition Input_export :: "runtime \<Rightarrow> Input \<Rightarrow> json dict" where
  "Input_export rt i =
     [(''value'', Input.value i), (''definition'', JDict (Definition_export rt (definition i)))]"

text \<open>
  \<open>Input(value, definition, parents=None, *, uid="")\<close> called with keywords of plain
  data. \<open>fresh\<close> is the string \<open>uuid.uuid4()\<close> gives when the constructor draws one.
\<close>

definition Input_new :: "string \<Rightarrow> json dict \<Rightarrow> Definition \<Rightarrow> error + Input" where
  "Input_new fresh kwargs d =
     (if \<not> list_all (\<lambda>(k, _). k \<in> set [''value'', ''definition'', ''parents'', ''uid'']) kwargs
      then Inl (TypeError ''__init__() got an unexpected keyword argument'')
      else case map_of kwargs ''value'' of
        None \<Rightarrow> Inl (TypeError ''__init__() missing required argument'')
      | Some v \<Rightarrow>
          bindE (case map_of kwargs ''parents'' of
                   None \<Rightarrow> Inr []
                 | Some JNull \<Rightarrow> Inr []
                 | Some (JList []) \<Rightarrow> Inr []
                 | Some _ \<Rightarrow> Inl (OutsideModel ''parents are not Inputs''))
            (\<lambda>ps. bindE (case map_of kwargs ''uid'' of
                            None \<Rightarrow> Inr fresh
                          | Some j \<Rightarrow>
                              if \<not> truthy j then Inr fresh
                              else (case j of JStr u \<Rightarrow> Inr u
                                    | _ \<Rightarrow> Inl (OutsideModel ''uid is not a str'')))
              (\<lambda>u. Inr \<lparr>Input.value = v, definition = d, parents = ps, uid = u\<rparr>)))"

definition Input_fromdict :: "runtime \<Rightarrow> string \<Rightarrow> json dict \<Rightarrow> error + Input" where
  "Input_fromdict rt fresh kwargs =
     (case map_of kwargs ''definition'' of
        None \<Rightarrow> Inl (KeyError ''definition'')
      | Some (JDict dd) \<Rightarrow> bindE (Definition_fromdict rt dd) (Input_new fresh kwargs)
      | Some _ \<Rightarrow> Inl (TypeError ''argument after ** must be a mapping''))"

text \<open>
  \<open>Input.get_parents\<close> on the object at address \<open>self\<close>. The first argument bounds the
  depth of the recursion, as the interpreter's recursion limit does: \<open>None\<close> is the call
  that does not return a list (RecursionError).
\<close>

fun get_parents :: "runtime \<Rightarrow> (nat \<Rightarrow> Input) \<Rightarrow> nat \<Rightarrow> nat \<Rightarrow> nat list option" where
  "get_parents rt heap 0 self = None"
| "get_parents rt heap (Suc depth) self =
     (case those (map (\<lambda>item. case get_parents rt heap depth item of
                                None \<Rightarrow> None
                              | Some found \<Rightarrow> Some (item # list_of_set (input_rank rt) found))
                      (parents (heap self))) of
        None \<Rightarrow> None
      | Some chunks \<Rightarrow> Some (list_of_set (input_rank rt) (concat chunks)))"

text \<open>
  The parent links of a heap, as pairs (parent, child), and the transitive ancestors of
  an Input: what is reached from it over one or more parent links.
\<close>

definition parent_rel :: "(nat \<Rightarrow> Input) \<Rightarrow> (nat \<times> nat) set" where
  "parent_rel heap = {(p, c). p \<in> set (parents (heap c))}"

definition ancestors :: "(nat \<Rightarrow> Input) \<Rightarrow> nat \<Rightarrow> nat set" where
  "ancestors heap self = {p. (p, self) \<in> (parent_rel heap)\<^sup>+}"

section \<open>Operation: definitions and import\<close>

text \<open>\<open>Operation.definitions(*args)\<close>.\<close>

definition Operation_definitions :: "Operation list \<Rightarrow> error + Definition dict" where
  "Operation_definitions args =
     fold (\<lambda>operation acc. bindE acc (\<lambda>definitions.
             bindE (mapE (\<lambda>c. case c of
                                Condition d \<Rightarrow> Inr d
                              | Unconverted _ \<Rightarrow> Inl (AttributeError ''object has no attribute name''))
                         (conditions operation))
               (\<lambda>cs. Inr (fold (\<lambda>d defs. dict_set defs (Definition.name d) d)
                            (map snd (inputs operation) @ map snd (outputs operation) @ cs)
                            definitions))))
          args (Inr [])"

text \<open>Strings out of a list of plain data that holds strings only.\<close>

fun str_list :: "json list \<Rightarrow> string list option" where
  "str_list [] = Some []"
| "str_list (JStr s # js) = map_option ((#) s) (str_list js)"
| "str_list (_ # js) = None"

text \<open>One of the loops of \<open>Operation._fromdict\<close> over \<open>["inputs", "outputs"]\<close>.\<close>

definition definitions_fromdict :: "runtime \<Rightarrow> json dict \<Rightarrow> string \<Rightarrow> error + Definition dict" where
  "definitions_fromdict rt kwargs prop =
     (case map_of kwargs prop of
        None \<Rightarrow> Inl (KeyError prop)
      | Some (JDict ports) \<Rightarrow>
          mapE (\<lambda>(argument_name, dj). case dj of
                   JDict dd \<Rightarrow> bindE (Definition_fromdict rt dd) (\<lambda>d. Inr (argument_name, d))
                 | _ \<Rightarrow> Inl (TypeError ''argument after ** must be a mapping''))
               ports
      | Some _ \<Rightarrow> Inl (AttributeError ''object has no attribute items''))"

text \<open>
  \<open>Operation._fromdict(**kwargs)\<close>. Inputs and outputs become Definitions and the stage a
  member of Stage; name, conditions, expand and instance_name go to the constructor as
  they are.
\<close>

definition Operation_fromdict :: "runtime \<Rightarrow> json dict \<Rightarrow> error + Operation" where
  "Operation_fromdict rt kwargs =
     bindE (definitions_fromdict rt kwargs ''inputs'') (\<lambda>ins.
     bindE (definitions_fromdict rt kwargs ''outputs'') (\<lambda>outs.
     bindE (case map_of kwargs ''stage'' of
              None \<Rightarrow> Inr PROCESSING
            | Some (JStr s) \<Rightarrow> Stage_getitem (upper s)
            | Some _ \<Rightarrow> Inl (AttributeError ''object has no attribute upper'')) (\<lambda>st.
     if \<not> list_all (\<lambda>(k, _). k \<in> set [''name'', ''inputs'', ''outputs'', ''stage'',
                                       ''conditions'', ''expand'', ''instance_name'']) kwargs
     then Inl (TypeError ''__new__() got an unexpected keyword argument'')
     else
     bindE (case map_of kwargs ''name'' of
              None \<Rightarrow> Inl (TypeError ''__new__() missing required argument'')
            | Some (JStr n) \<Rightarrow> Inr n
            | Some _ \<Rightarrow> Inl (OutsideModel ''name is not a str'')) (\<lambda>n.
     bindE (case map_of kwargs ''conditions'' of
              None \<Rightarrow> Inr []
            | Some (JList cs) \<Rightarrow> Inr (map Unconverted cs)
            | Some _ \<Rightarrow> Inl (OutsideModel ''conditions is not a list'')) (\<lambda>conds.
     bindE (case map_of kwargs ''expand'' of
              None \<Rightarrow> Inr []
            | Some (JList es) \<Rightarrow>
                (case str_list es of Some ss \<Rightarrow> Inr ss
                 | None \<Rightarrow> Inl (OutsideModel ''expand is not a list of str''))
            | Some _ \<Rightarrow> Inl (OutsideModel ''expand is not a list of str'')) (\<lambda>ex.
     bindE (case map_of kwargs ''instance_name'' of
              None \<Rightarrow> Inr None
            | Some JNull \<Rightarrow> Inr None
            | Some (JStr i) \<Rightarrow> Inr (Some i)
            | Some _ \<Rightarrow> Inl (OutsideModel ''instance_name is not a str'')) (\<lambda>inst.
     Inr \<lparr>Operation.name = n, inputs = ins, outputs = outs, stage = st,
          conditions = conds, expand = ex, instance_name = inst\<rparr>)))))))"

section \<open>DataFlow\<close>

text \<open>An operation implementation: an opaque object, modelled by its identity.\<close>

datatype OperationImplementation = OperationImplementation nat

text \<open>
  A value of the \<open>operations\<close> argument: an Operation, or an object decorated with
  \<open>op\<close>, which carries an Operation (\<open>.op\<close>) and its implementation (\<open>.imp\<close>).
\<close>

datatype operation_value = Plain Operation | Decorated Operation OperationImplementation

type_synonym InputFlow = "string list dict"

record DataFlow =
  operations :: "Operation dict"
  seed :: "Input list"
  configs :: "json dict"
  definitions :: "Definition dict"
  flow :: "InputFlow dict"
  implementations :: "OperationImplementation dict"

text \<open>The Operation of such a value: \<open>value.op\<close> of a decorated object, else the value.\<close>

fun operation_of :: "operation_value \<Rightarrow> Operation" where
  "operation_of (Plain operation) = operation"
| "operation_of (Decorated operation opimp) = operation"

text \<open>
  The constructor: the dataclass's \<open>__init__\<close> followed by \<open>__post_init__\<close>. An
  argument that is \<open>None\<close> stands for one that is left out.
\<close>

definition DataFlow_new ::
  "runtime \<Rightarrow> operation_value dict \<Rightarrow> Input list option \<Rightarrow> json dict option
     \<Rightarrow> InputFlow dict option \<Rightarrow> OperationImplementation dict option \<Rightarrow> DataFlow" where
  "DataFlow_new rt operations_arg seed_arg configs_arg flow_arg implementations_arg =
     (let stamped = map (\<lambda>(instance_name, v).
                       (instance_name,
                        (operation_of v)\<lparr>instance_name := Some instance_name\<rparr>))
                     operations_arg;
          found = list_of_set (definition_rank rt)
                    (concat (map (\<lambda>(_, operation). map snd (inputs operation)
                                                      @ map snd (outputs operation))
                                 stamped))
      in \<lparr>operations = stamped,
          seed = (case seed_arg of None \<Rightarrow> [] | Some s \<Rightarrow> s),
          configs = (case configs_arg of None \<Rightarrow> [] | Some c \<Rightarrow> c),
          definitions = dict_comprehension Definition.name id found,
          flow = (case flow_arg of None \<Rightarrow> [] | Some f \<Rightarrow> f),
          implementations =
            fold (\<lambda>(_, v) imps. case v of
                     Decorated operation opimp \<Rightarrow>
                       dict_setdefault imps (Operation.name operation) opimp
                   | Plain _ \<Rightarrow> imps)
                 operations_arg
                 (case implementations_arg of None \<Rightarrow> [] | Some m \<Rightarrow> m)\<rparr>)"

text \<open>
  The Definitions on the input and output ports of the operations of a DataFlow, and those
  among the conditions of its operations.
\<close>

definition port_definitions :: "DataFlow \<Rightarrow> Definition list" where
  "port_definitions self =
     concat (map (\<lambda>(_, operation). map snd (inputs operation) @ map snd (outputs operation))
                 (operations self))"

definition condition_definitions :: "DataFlow \<Rightarrow> Definition list" where
  "condition_definitions self =
     concat (map (\<lambda>(_, operation).
                    concat (map (\<lambda>c. case c of Condition d \<Rightarrow> [d] | Unconverted _ \<Rightarrow> [])
                                (conditions operation)))
                 (operations self))"

text \<open>
  Equality of two Operations (of two tuples, field by field; dicts by \<open>dict_eq\<close>) and of
  two DataFlows on the fields an export carries: operations, seed, configs, definitions
  and flow. Python compares two Inputs by identity; comparing their fields, as here, calls
  equal whatever Python does, so two seeds unequal here are unequal in Python.
\<close>

definition Operation_eq :: "Operation \<Rightarrow> Operation \<Rightarrow> bool" where
  "Operation_eq a b =
     (Operation.name a = Operation.name b
      \<and> dict_eq (=) (inputs a) (inputs b)
      \<and> dict_eq (=) (outputs a) (outputs b)
      \<and> stage a = stage b
      \<and> conditions a = conditions b
      \<and> expand a = expand b
      \<and> instance_name a = instance_name b)"

definition DataFlow_eq :: "DataFlow \<Rightarrow> DataFlow \<Rightarrow> bool" where
  "DataFlow_eq a b =
     (dict_eq Operation_eq (operations a) (operations b)
      \<and> seed a = seed b
      \<and> dict_eq (=) (configs a) (configs b)
      \<and> dict_eq (=) (definitions a) (definitions b)
      \<and> dict_eq (dict_eq (=)) (flow a) (flow b))"

subsection \<open>Auto-wiring\<close>

text \<open>
  The body of the first loop of \<open>DataFlow.auto\<close>, for one output of one operation:
  \<open>output_dict.setdefault(output.name, {})\<close>, then
  \<open>output_dict[output.name].update({operation.name: operation})\<close>. The inner dict is
  changed in place, so its key keeps its position in \<open>output_dict\<close>.
\<close>

definition record_output ::
  "Operation \<Rightarrow> Definition \<Rightarrow> Operation dict dict \<Rightarrow> Operation dict dict" where
  "record_output operation output output_dict =
     dict_set output_dict (Definition.name output)
       (dict_set (case map_of output_dict (Definition.name output) of
                    None \<Rightarrow> []
                  | Some producers \<Rightarrow> producers)
                 (Operation.name operation) operation)"

definition output_dict_of :: "Operation list \<Rightarrow> Operation dict dict" where
  "output_dict_of operations_arg =
     fold (\<lambda>operation. fold (\<lambda>(_, output). record_output operation output)
                              (outputs operation))
          operations_arg []"

text \<open>The list built for one input when its name is in \<open>output_dict\<close>: the two innermost loops.\<close>

definition producer_entries :: "Definition \<Rightarrow> Operation dict \<Rightarrow> string list" where
  "producer_entries d producing_operations =
     concat (map (\<lambda>(_, producing_operation).
               map (\<lambda>(internal_name_of_output, _).
                      Operation.name producing_operation @ ''.'' @ internal_name_of_output)
                   (filter (\<lambda>(_, output_definition). output_definition = d)
                           (outputs producing_operation)))
             producing_operations)"

text \<open>What \<open>flow_dict[operation.name][internal_name]\<close> is set to, for an input of Definition \<open>d\<close>.\<close>

definition input_sources :: "Operation dict dict \<Rightarrow> Definition \<Rightarrow> string list" where
  "input_sources output_dict d =
     (case map_of output_dict (Definition.name d) of
        Some producing_operations \<Rightarrow> producer_entries d producing_operations
      | None \<Rightarrow> [''seed''])"

text \<open>
  The body of the second loop, for one operation:
  \<open>flow_dict.setdefault(operation.name, InputFlow())\<close>, then an assignment to
  \<open>flow_dict[operation.name][internal_name]\<close> for every input.
\<close>

definition wire_operation ::
  "Operation dict dict \<Rightarrow> Operation \<Rightarrow> InputFlow dict \<Rightarrow> InputFlow dict" where
  "wire_operation output_dict operation flow_dict =
     dict_set flow_dict (Operation.name operation)
       (fold (\<lambda>(internal_name, d) input_flow.
                dict_set input_flow internal_name (input_sources output_dict d))
             (inputs operation)
             (case map_of flow_dict (Operation.name operation) of
                None \<Rightarrow> []
              | Some input_flow \<Rightarrow> input_flow))"

definition flow_dict_of :: "Operation list \<Rightarrow> InputFlow dict" where
  "flow_dict_of operations_arg =
     fold (wire_operation (output_dict_of operations_arg)) operations_arg []"

definition auto :: "runtime \<Rightarrow> Operation list \<Rightarrow> DataFlow" where
  "auto rt operations_arg =
     DataFlow_new rt (dict_comprehension Operation.name Plain operations_arg)
       None None (Some (flow_dict_of operations_arg)) None"

subsection \<open>Export\<close>

text \<open>\<open>DataFlow._linked_operations\<close>: every port names its Definition instead of holding it.\<close>

definition link_ports :: "Definition dict \<Rightarrow> json" where
  "link_ports ports = JDict (map (\<lambda>(k, d). (k, JStr (Definition.name d))) ports)"

definition linked_operations :: "runtime \<Rightarrow> DataFlow \<Rightarrow> error + json dict" where
  "linked_operations rt self =
     fold (\<lambda>(_, operation) acc. bindE acc (\<lambda>exported.
             bindE (Operation_export rt operation) (\<lambda>exported_operation.
               case instance_name operation of
                 None \<Rightarrow> Inl (OutsideModel ''an exported dict with the key None'')
               | Some key \<Rightarrow>
                   Inr (dict_set exported key
                         (JDict (dict_set
                                  (dict_set exported_operation ''inputs''
                                     (link_ports (inputs operation)))
                                  ''outputs'' (link_ports (outputs operation))))))))
          (operations self) (Inr [])"

text \<open>
  Modelled from the spec: \<open>export_dict\<close> of \<open>dffml/util/data.py\<close>, which
  \<open>DataFlow.export\<close> returns through, is not among the sources. By the descriptor of the
  spec's section 6, it leaves plain data as it is and replaces an object that has an
  \<open>export\<close> method (a seed Input, a Definition of the definitions table) by what that
  method returns. \<open>DataFlow_export\<close> below is \<open>DataFlow.export\<close> with that applied.
\<close>

definition export_flow :: "InputFlow dict \<Rightarrow> json" where
  "export_flow flows =
     JDict (map (\<lambda>(instance_name, input_flow).
                   (instance_name,
                    JDict (map (\<lambda>(port, sources). (port, JList (map JStr sources))) input_flow)))
                flows)"

definition DataFlow_export :: "runtime \<Rightarrow> bool \<Rightarrow> DataFlow \<Rightarrow> error + json dict" where
  "DataFlow_export rt linked self =
     bindE (if \<not> linked
            then mapE (\<lambda>(instance_name, operation).
                         bindE (Operation_export rt operation)
                           (\<lambda>exported. Inr (instance_name, JDict exported)))
                      (operations self)
            else linked_operations rt self) (\<lambda>exported_operations.
     Inr ([(''operations'', JDict exported_operations),
           (''seed'', JList (map (\<lambda>i. JDict (Input_export rt i)) (seed self))),
           (''configs'', JDict (configs self)),
           (''flow'', export_flow (flow self))]
          @ (if linked
             then [(''linked'', JBool True),
                   (''definitions'', export_ports rt (definitions self))]
             else [])))"

subsection \<open>Import\<close>

text \<open>
  \<open>definitions[definition_name]\<close> behind the test \<open>definition_name in definitions\<close>. The
  module neither defines nor imports the name \<open>DefinitionMissing\<close>, so the \<open>raise\<close>
  statement of the failing test raises NameError when it evaluates that name.
\<close>

definition resolve_reference :: "json dict \<Rightarrow> json \<Rightarrow> error + json" where
  "resolve_reference definitions_arg definition_name =
     (case definition_name of
        JStr s \<Rightarrow>
          (case map_of definitions_arg s of
             None \<Rightarrow> Inl (NameError ''DefinitionMissing'')
           | Some d \<Rightarrow> Inr d)
      | JList _ \<Rightarrow> Inl (TypeError ''unhashable type'')
      | JDict _ \<Rightarrow> Inl (TypeError ''unhashable type'')
      | _ \<Rightarrow> Inl (NameError ''DefinitionMissing''))"

text \<open>The body of the loop over the operations in \<open>DataFlow._resolve_operations\<close>.\<close>

definition resolve_operation :: "json dict \<Rightarrow> string option \<Rightarrow> json dict \<Rightarrow> error + json dict" where
  "resolve_operation definitions_arg name_var operation =
     bindE (case map_of operation ''conditions'' of
              None \<Rightarrow> Inr operation
            | Some (JList cs) \<Rightarrow>
                bindE (mapE (resolve_reference definitions_arg) cs)
                  (\<lambda>resolved. Inr (dict_set operation ''conditions'' (JList resolved)))
            | Some _ \<Rightarrow> Inl (OutsideModel ''conditions is not a list'')) (\<lambda>operation.
     bindE (fold (\<lambda>arg acc. bindE acc (\<lambda>operation.
                    case map_of operation arg of
                      None \<Rightarrow> Inr operation
                    | Some (JDict ports) \<Rightarrow>
                        bindE (mapE (\<lambda>(input_name, definition_name).
                                       bindE (resolve_reference definitions_arg definition_name)
                                         (\<lambda>d. Inr (input_name, d)))
                                    ports)
                          (\<lambda>resolved. Inr (dict_set operation arg (JDict resolved)))
                    | Some _ \<Rightarrow> Inl (AttributeError ''object has no attribute items'')))
                 [''inputs'', ''outputs''] (Inr operation)) (\<lambda>operation.
     case name_var of
       None \<Rightarrow> Inl (UnboundLocalError ''name'')
     | Some n \<Rightarrow> Inr (dict_setdefault operation ''name'' (JStr n))))"

text \<open>
  \<open>DataFlow._resolve_operations(source)\<close>. The variable \<open>name\<close> that the last statement of
  the loop over the operations reads is the loop variable of the loop over the
  definitions: unbound when there are none, else the last name of the table.
\<close>

definition resolve_operations :: "json dict \<Rightarrow> error + json dict" where
  "resolve_operations source =
     bindE (case map_of source ''definitions'' of
              None \<Rightarrow> Inr []
            | Some (JDict table) \<Rightarrow>
                mapE (\<lambda>(n, d). case d of
                         JDict dd \<Rightarrow> Inr (n, JDict (dict_setdefault dd ''name'' (JStr n)))
                       | _ \<Rightarrow> Inl (AttributeError ''object has no attribute setdefault''))
                     table
            | Some _ \<Rightarrow> Inl (AttributeError ''object has no attribute items'')) (\<lambda>definitions_arg.
     bindE (case map_of source ''operations'' of
              None \<Rightarrow> Inr []
            | Some (JDict ops) \<Rightarrow>
                mapE (\<lambda>(instance_name, operation). case operation of
                         JDict o_dict \<Rightarrow>
                           bindE (resolve_operation definitions_arg
                                    (if definitions_arg = [] then None
                                     else Some (fst (last definitions_arg))) o_dict)
                             (\<lambda>resolved. Inr (instance_name, JDict resolved))
                       | _ \<Rightarrow> Inl (OutsideModel ''an operation is not a dict''))
                     ops
            | Some _ \<Rightarrow> Inl (AttributeError ''object has no attribute items'')) (\<lambda>resolved.
     case map_of source ''operations'' of
       None \<Rightarrow> Inl (KeyError ''operations'')
     | Some _ \<Rightarrow> Inr resolved))"

text \<open>
  \<open>InputFlow(input_flow)\<close> is \<open>dict(input_flow)\<close>: the copy of a dict, or the dict built
  from an iterable of key-value pairs. \<open>flow_pair\<close> is what \<open>dict\<close> makes of one element
  of the iterable: a sequence of length two (a list, a string of two characters, or a
  dict of two keys, which iterates as its keys).
\<close>

fun flow_pair :: "json \<Rightarrow> error + (string \<times> json)" where
  "flow_pair (JList [k, v]) =
     (case k of
        JStr key \<Rightarrow> Inr (key, v)
      | JList _ \<Rightarrow> Inl (TypeError ''unhashable type'')
      | JDict _ \<Rightarrow> Inl (TypeError ''unhashable type'')
      | _ \<Rightarrow> Inl (OutsideModel ''a key that is not a str''))"
| "flow_pair (JList _) = Inl (ValueError ''dictionary update sequence element: 2 is required'')"
| "flow_pair (JStr [a, b]) = Inr ([a], JStr [b])"
| "flow_pair (JStr _) = Inl (ValueError ''dictionary update sequence element: 2 is required'')"
| "flow_pair (JDict [(a, _), (b, _)]) = Inr (a, JStr b)"
| "flow_pair (JDict _) = Inl (ValueError ''dictionary update sequence element: 2 is required'')"
| "flow_pair _ = Inl (TypeError ''cannot convert dictionary update sequence element'')"

text \<open>The sources of one port, which the typed InputFlow holds as a list of strings.\<close>

definition flow_sources :: "string \<times> json \<Rightarrow> error + (string \<times> string list)" where
  "flow_sources entry =
     (case entry of
        (port, JList js) \<Rightarrow>
          (case str_list js of
             Some ss \<Rightarrow> Inr (port, ss)
           | None \<Rightarrow> Inl (OutsideModel ''a source is not a str''))
      | (port, _) \<Rightarrow> Inl (OutsideModel ''the sources are not a list''))"

definition InputFlow_of :: "json \<Rightarrow> error + InputFlow" where
  "InputFlow_of input_flow =
     bindE (case input_flow of
              JDict ports \<Rightarrow> Inr ports
            | JList items \<Rightarrow>
                bindE (mapE flow_pair items)
                  (\<lambda>pairs. Inr (fold (\<lambda>(k, v) d. dict_set d k v) pairs []))
            | JStr s \<Rightarrow>
                if s = [] then Inr []
                else Inl (ValueError ''dictionary update sequence element: 2 is required'')
            | _ \<Rightarrow> Inl (TypeError ''object is not iterable''))
       (mapE flow_sources)"

text \<open>
  \<open>DataFlow._fromdict(**d)\<close>: \<open>linked\<close> is the keyword of that name in \<open>d\<close>, the other
  keys are \<open>kwargs\<close>. The Input made from the \<open>n\<close>-th seed entry draws \<open>uuid4 rt n\<close>.
\<close>

definition DataFlow_fromdict :: "runtime \<Rightarrow> json dict \<Rightarrow> error + DataFlow" where
  "DataFlow_fromdict rt d =
     (let linked = (case map_of d ''linked'' of None \<Rightarrow> False | Some j \<Rightarrow> truthy j);
          kwargs = AList.delete ''linked'' d
      in
      bindE (if linked
             then bindE (resolve_operations kwargs) (\<lambda>resolved.
                    case map_of kwargs ''definitions'' of
                      None \<Rightarrow> Inl (KeyError ''definitions'')
                    | Some _ \<Rightarrow>
                        Inr (AList.delete ''definitions''
                               (dict_set kwargs ''operations'' (JDict resolved))))
             else Inr kwargs) (\<lambda>kwargs.
      bindE (case map_of kwargs ''operations'' of
               None \<Rightarrow> Inl (KeyError ''operations'')
             | Some (JDict ops) \<Rightarrow>
                 mapE (\<lambda>(instance_name, operation). case operation of
                          JDict o_dict \<Rightarrow>
                            if map_of o_dict ''instance_name'' \<noteq> None
                            then Inl (TypeError ''got multiple values for keyword argument'')
                            else bindE (Operation_fromdict rt
                                          (o_dict @ [(''instance_name'', JStr instance_name)]))
                                   (\<lambda>operation. Inr (instance_name, Plain operation))
                        | _ \<Rightarrow> Inl (TypeError ''argument after ** must be a mapping''))
                      ops
             | Some _ \<Rightarrow> Inl (AttributeError ''object has no attribute items'')) (\<lambda>ops.
      bindE (case map_of kwargs ''seed'' of
               None \<Rightarrow> Inl (KeyError ''seed'')
             | Some (JList input_datas) \<Rightarrow>
                 mapE (\<lambda>(n, input_data). case input_data of
                          JDict i_dict \<Rightarrow> Input_fromdict rt (uuid4 rt n) i_dict
                        | _ \<Rightarrow> Inl (TypeError ''argument after ** must be a mapping''))
                      (enumerate 0 input_datas)
             | Some (JStr []) \<Rightarrow> Inr []
             | Some (JDict []) \<Rightarrow> Inr []
             | Some _ \<Rightarrow> Inl (TypeError ''seed'')) (\<lambda>seeds.
      bindE (case map_of kwargs ''flow'' of
               None \<Rightarrow> Inl (KeyError ''flow'')
             | Some (JDict flows) \<Rightarrow>
                 mapE (\<lambda>(instance_name, input_flow).
                         bindE (InputFlow_of input_flow) (\<lambda>f. Inr (instance_name, f)))
                      flows
             | Some _ \<Rightarrow> Inl (AttributeError ''object has no attribute items'')) (\<lambda>flows.
      if \<not> list_all (\<lambda>(k, _). k \<in> set [''operations'', ''seed'', ''configs'', ''flow'',
                                        ''implementations'']) kwargs
      then Inl (TypeError ''__init__() got an unexpected keyword argument'')
      else
      bindE (case map_of kwargs ''configs'' of
               None \<Rightarrow> Inr None
             | Some JNull \<Rightarrow> Inr None
             | Some (JDict c) \<Rightarrow> Inr (Some c)
             | Some _ \<Rightarrow> Inl (OutsideModel ''configs is not a dict'')) (\<lambda>configs_arg.
      bindE (case map_of kwargs ''implementations'' of
               None \<Rightarrow> Inr None
             | Some JNull \<Rightarrow> Inr None
             | Some (JDict []) \<Rightarrow> Inr (Some [])
             | Some _ \<Rightarrow> Inl (OutsideModel ''implementations are not plain data'')) (\<lambda>imps.
      Inr (DataFlow_new rt ops (Some seeds) configs_arg (Some flows) imps))))))))"

text \<open>
  What the import makes of the exported seed of a DataFlow: the same values and
  definitions in the same order, no parents, and a newly drawn uid each.
\<close>

definition reimported_seed :: "runtime \<Rightarrow> Input list \<Rightarrow> Input list" where
  "reimported_seed rt seeds =
     map (\<lambda>(n, i). i\<lparr>parents := [], uid := uuid4 rt n\<rparr>) (enumerate 0 seeds)"

section \<open>Example data\<close>

text \<open>
  A runtime, and a small network in the style of the repository's binary-security
  operations, for the concrete instances below.
\<close>

definition runtime0 :: runtime where
  "runtime0 =
     \<lparr>spec_describe = (\<lambda>_. JNull),
      spec_build = (\<lambda>_. Inl (TypeError ''type()'')),
      uuid4 = (\<lambda>n. ''uuid-'' @ replicate n CHR ''i''),
      definition_rank = (\<lambda>_. 0),
      input_rank = (\<lambda>_. 0)\<rparr>"

definition URL :: Definition where
  "URL = \<lparr>Definition.name = ''URL'', primitive = ''string'', lock = False, spec = None\<rparr>"

definition RPMObject :: Definition where
  "RPMObject =
     \<lparr>Definition.name = ''RPMObject'', primitive = ''python_obj'', lock = True, spec = None\<rparr>"

definition rpm_filename :: Definition where
  "rpm_filename =
     \<lparr>Definition.name = ''rpm_filename'', primitive = ''str'', lock = False, spec = None\<rparr>"

definition url_to_rpm :: Operation where
  "url_to_rpm =
     \<lparr>Operation.name = ''url_to_rpm'', inputs = [(''URL'', URL)],
      outputs = [(''rpm'', RPMObject)], stage = PROCESSING, conditions = [],
      expand = [], instance_name = None\<rparr>"

definition zip_to_rpm :: Operation where
  "zip_to_rpm =
     \<lparr>Operation.name = ''zip_to_rpm'', inputs = [(''archive'', URL)],
      outputs = [(''rpm'', RPMObject)], stage = PROCESSING, conditions = [],
      expand = [], instance_name = None\<rparr>"

text \<open>Two operations of one name.\<close>

definition fetch_rpm :: Operation where
  "fetch_rpm =
     \<lparr>Operation.name = ''fetch'', inputs = [(''URL'', URL)],
      outputs = [(''rpm'', RPMObject)], stage = PROCESSING, conditions = [],
      expand = [], instance_name = None\<rparr>"

definition fetch_mirrors :: Operation where
  "fetch_mirrors =
     \<lparr>Operation.name = ''fetch'', inputs = [(''archive'', URL)],
      outputs = [(''package'', RPMObject), (''mirror'', RPMObject)], stage = PROCESSING,
      conditions = [], expand = [], instance_name = None\<rparr>"

definition files_in_rpm :: Operation where
  "files_in_rpm =
     \<lparr>Operation.name = ''files_in_rpm'', inputs = [(''rpm'', RPMObject)],
      outputs = [(''files'', rpm_filename)], stage = PROCESSING,
      conditions = [Condition URL], expand = [''files''],
      instance_name = Some ''elsewhere''\<rparr>"

definition URL_bytes :: Definition where
  "URL_bytes = \<lparr>Definition.name = ''URL'', primitive = ''bytes'', lock = False, spec = None\<rparr>"

definition bytes_to_rpm :: Operation where
  "bytes_to_rpm =
     \<lparr>Operation.name = ''bytes_to_rpm'', inputs = [(''download'', URL_bytes)],
      outputs = [(''rpm'', RPMObject)], stage = PROCESSING, conditions = [],
      expand = [], instance_name = None\<rparr>"

text \<open>A heap of four Inputs: 0 and 1 are seeds, 2 was made from both, 3 from 2 and 1.\<close>

definition heap0 :: "nat \<Rightarrow> Input" where
  "heap0 =
     (\<lambda>_. \<lparr>Input.value = JNull, definition = URL, parents = [], uid = ''seed''\<rparr>)
       (2 := \<lparr>Input.value = JNull, definition = RPMObject, parents = [0, 1], uid = ''made-2''\<rparr>,
        3 := \<lparr>Input.value = JNull, definition = rpm_filename, parents = [2, 1],
               uid = ''made-3''\<rparr>)"

definition seed_url :: Input where
  "seed_url =
     \<lparr>Input.value = JStr ''https://example.com/a.rpm'', definition = URL,
      parents = [], uid = ''seed-1''\<rparr>"

text \<open>An Input produced by an operation from the Inputs 0 and 1.\<close>

definition produced_file :: Input where
  "produced_file =
     \<lparr>Input.value = JStr ''usr/bin/ls'', definition = rpm_filename,
      parents = [0, 1], uid = ''made-2''\<rparr>"

definition dataflow0 :: DataFlow where
  "dataflow0 =
     DataFlow_new runtime0 [(''url_to_rpm'', Plain url_to_rpm)] (Some [produced_file])
       None None None"

definition dataflow1 :: DataFlow where
  "dataflow1 =
     DataFlow_new runtime0 [(''url_to_rpm'', Plain url_to_rpm), (''zip_to_rpm'', Plain zip_to_rpm)]
       None (Some [(''url_to_rpm'', JDict [(''timeout'', JInt 30)])])
       (Some (flow_dict_of [url_to_rpm, zip_to_rpm])) None"

section \<open>Theorems\<close>

subsection \<open>Dictionaries and the loops of auto-wiring\<close>

lemma map_of_dict_set: "map_of (dict_set d k v) = (map_of d)(k \<mapsto> v)"
  by (simp add: dict_set_def update_conv')

lemma keys_dict_set: "fst ` set (dict_set d k v) = insert k (fst ` set d)"
  by (simp add: dict_set_def dom_update)

lemma distinct_dict_set: "distinct (map fst d) \<Longrightarrow> distinct (map fst (dict_set d k v))"
  by (simp add: dict_set_def distinct_update)

lemma dict_set_twice: "dict_set (dict_set d k v) k v = dict_set d k v"
  by (simp add: dict_set_def)

lemma dict_set_new: "k \<notin> fst ` set d \<Longrightarrow> dict_set d k v = d @ [(k, v)]"
  by (induction d) (auto simp: dict_set_def)

lemma fold_inputs_other:
  "p \<notin> fst ` set ins \<Longrightarrow>
   map_of (fold (\<lambda>(internal_name, d) input_flow. dict_set input_flow internal_name (g d)) ins acc) p
     = map_of acc p"
  by (induction ins arbitrary: acc) (auto simp: map_of_dict_set)

lemma fold_inputs_lookup:
  "distinct (map fst ins) \<Longrightarrow> (p, d) \<in> set ins \<Longrightarrow>
   map_of (fold (\<lambda>(internal_name, d) input_flow. dict_set input_flow internal_name (g d)) ins acc) p
     = Some (g d)"
proof (induction ins arbitrary: acc)
  case Nil
  then show ?case by simp
next
  case (Cons a ins)
  show ?case
  proof (cases "a = (p, d)")
    case True
    with Cons.prems have "p \<notin> fst ` set ins" by auto
    with True show ?thesis by (simp add: fold_inputs_other map_of_dict_set)
  next
    case False
    with Cons show ?thesis by (cases a) auto
  qed
qed

lemma wire_operation_lookup:
  "map_of (wire_operation od operation fd) n =
     (if n = Operation.name operation
      then Some (fold (\<lambda>(internal_name, d) input_flow.
                         dict_set input_flow internal_name (input_sources od d))
                      (inputs operation)
                      (case map_of fd (Operation.name operation) of None \<Rightarrow> [] | Some f \<Rightarrow> f))
      else map_of fd n)"
  by (simp add: wire_operation_def map_of_dict_set)

lemma fold_wire_other:
  "n \<notin> Operation.name ` set ops \<Longrightarrow> map_of (fold (wire_operation od) ops fd) n = map_of fd n"
  by (induction ops arbitrary: fd) (auto simp: wire_operation_lookup)

lemma fold_wire_lookup:
  "distinct (map Operation.name ops) \<Longrightarrow> operation \<in> set ops \<Longrightarrow>
   distinct (map fst (inputs operation)) \<Longrightarrow> (p, d) \<in> set (inputs operation) \<Longrightarrow>
   \<exists>input_flow. map_of (fold (wire_operation od) ops fd) (Operation.name operation) = Some input_flow
      \<and> map_of input_flow p = Some (input_sources od d)"
proof (induction ops arbitrary: fd)
  case Nil
  then show ?case by simp
next
  case (Cons a ops)
  show ?case
  proof (cases "a = operation")
    case True
    with Cons.prems have "Operation.name operation \<notin> Operation.name ` set ops" by auto
    with True Cons.prems show ?thesis
      by (simp add: fold_wire_other wire_operation_lookup fold_inputs_lookup)
  next
    case False
    with Cons show ?thesis by auto
  qed
qed

lemma keys_fold_wire:
  "fst ` set (fold (wire_operation od) ops fd) = fst ` set fd \<union> Operation.name ` set ops"
  by (induction ops arbitrary: fd) (auto simp: wire_operation_def keys_dict_set)

lemma record_output_lookup:
  "map_of (record_output operation output od) n =
     (if n = Definition.name output
      then Some (dict_set (case map_of od n of None \<Rightarrow> [] | Some ps \<Rightarrow> ps)
                          (Operation.name operation) operation)
      else map_of od n)"
  by (simp add: record_output_def map_of_dict_set)

lemma fold_record_outputs:
  "map_of (fold (\<lambda>(_, output). record_output operation output) outs od) n =
     (if n \<in> (\<lambda>(_, output). Definition.name output) ` set outs
      then Some (dict_set (case map_of od n of None \<Rightarrow> [] | Some ps \<Rightarrow> ps)
                          (Operation.name operation) operation)
      else map_of od n)"
  by (induction outs arbitrary: od) (auto simp: record_output_lookup dict_set_twice)

lemma fold_outputs_producers:
  "distinct (map Operation.name ops) \<Longrightarrow>
   fst ` set (case map_of od n of None \<Rightarrow> [] | Some ps \<Rightarrow> ps) \<inter> Operation.name ` set ops = {} \<Longrightarrow>
   map_of (fold (\<lambda>operation. fold (\<lambda>(_, output). record_output operation output)
                                    (outputs operation)) ops od) n =
     (let new = map (\<lambda>q. (Operation.name q, q))
                    (filter (\<lambda>q. n \<in> (\<lambda>(_, output). Definition.name output) ` set (outputs q)) ops)
      in if new = [] then map_of od n
         else Some ((case map_of od n of None \<Rightarrow> [] | Some ps \<Rightarrow> ps) @ new))"
proof (induction ops arbitrary: od)
  case Nil
  then show ?case by simp
next
  case (Cons a ops)
  let ?od = "fold (\<lambda>(_, output). record_output a output) (outputs a) od"
  let ?old = "case map_of od n of None \<Rightarrow> [] | Some ps \<Rightarrow> ps"
  let ?hit = "n \<in> (\<lambda>(_, output). Definition.name output) ` set (outputs a)"
  have fresh: "Operation.name a \<notin> fst ` set ?old"
    using Cons.prems(2) by auto
  have rest: "fst ` set ?old \<inter> Operation.name ` set ops = {}"
    using Cons.prems(2) by auto
  have other: "Operation.name a \<notin> Operation.name ` set ops"
    using Cons.prems(1) by auto
  have dist: "distinct (map Operation.name ops)"
    using Cons.prems(1) by simp
  show ?case
  proof (cases ?hit)
    case True
    then have now: "map_of ?od n = Some (?old @ [(Operation.name a, a)])"
      using fresh by (simp add: fold_record_outputs dict_set_new)
    have "fst ` set (case map_of ?od n of None \<Rightarrow> [] | Some ps \<Rightarrow> ps)
            \<inter> Operation.name ` set ops = {}"
      unfolding now using rest other by auto
    from Cons.IH [OF dist this] show ?thesis
      using True by (simp add: now Let_def)
  next
    case False
    then have now: "map_of ?od n = map_of od n"
      by (simp add: fold_record_outputs)
    have "fst ` set (case map_of ?od n of None \<Rightarrow> [] | Some ps \<Rightarrow> ps)
            \<inter> Operation.name ` set ops = {}"
      unfolding now using rest by simp
    from Cons.IH [OF dist this] show ?thesis
      using False by (simp add: now Let_def)
  qed
qed

lemma output_dict_of_lookup:
  "distinct (map Operation.name ops) \<Longrightarrow>
   map_of (output_dict_of ops) n =
     (let new = map (\<lambda>q. (Operation.name q, q))
                    (filter (\<lambda>q. n \<in> (\<lambda>(_, output). Definition.name output) ` set (outputs q)) ops)
      in if new = [] then None else Some new)"
  using fold_outputs_producers [of ops "[]" n] by (simp add: output_dict_of_def)

lemma concat_map_filter_empty:
  "(\<forall>x \<in> set xs. \<not> P x \<longrightarrow> f x = []) \<Longrightarrow> concat (map f (filter P xs)) = concat (map f xs)"
  by (induction xs) auto

lemma input_sources_auto:
  assumes "distinct (map Operation.name ops)"
  shows "input_sources (output_dict_of ops) d =
     (if \<forall>q \<in> set ops. \<forall>(out, od) \<in> set (outputs q). Definition.name od \<noteq> Definition.name d
      then [''seed'']
      else concat (map (\<lambda>q. map (\<lambda>(out, _). Operation.name q @ ''.'' @ out)
                                  (filter (\<lambda>(_, od). od = d) (outputs q))) ops))"
proof -
  let ?P = "\<lambda>q. Definition.name d \<in> (\<lambda>(_, output). Definition.name output) ` set (outputs q)"
  let ?f = "\<lambda>q. map (\<lambda>(out, _). Operation.name q @ ''.'' @ out)
                     (filter (\<lambda>(_, od). od = d) (outputs q))"
  have named: "?P q \<longleftrightarrow> (\<exists>(out, od) \<in> set (outputs q). Definition.name od = Definition.name d)" for q
    by (force simp: image_iff)
  have none: "(\<forall>q \<in> set ops. \<forall>(out, od) \<in> set (outputs q). Definition.name od \<noteq> Definition.name d)
      \<longleftrightarrow> filter ?P ops = []"
    unfolding filter_empty_conv named by auto
  have empty: "\<forall>q \<in> set ops. \<not> ?P q \<longrightarrow> ?f q = []"
    unfolding named by (auto simp: filter_empty_conv)
  have "producer_entries d (map (\<lambda>q. (Operation.name q, q)) (filter ?P ops))
      = concat (map ?f (filter ?P ops))"
    by (simp add: producer_entries_def o_def)
  also have "\<dots> = concat (map ?f ops)"
    using empty by (rule concat_map_filter_empty)
  finally show ?thesis
    using none by (simp add: input_sources_def output_dict_of_lookup [OF assms] Let_def)
qed

lemma flow_auto: "flow (auto rt ops) = flow_dict_of ops"
  by (simp add: auto_def DataFlow_new_def Let_def)


lemma subseq_concat_map:
  "(\<And>x. x \<in> set xs \<Longrightarrow> subseq (g x) (h x)) \<Longrightarrow> subseq (concat (map g xs)) (concat (map h xs))"
  by (induction xs) (auto intro: list_emb_append_mono)

lemma dict_eq_refl:
  "distinct (map fst a) \<Longrightarrow> (\<And>k v. (k, v) \<in> set a \<Longrightarrow> veq v v) \<Longrightarrow> dict_eq veq a a"
  by (auto simp: dict_eq_def list_all_iff)

lemma dict_eq_Nil: "dict_eq veq a [] \<longleftrightarrow> a = []"
  by (auto simp: dict_eq_def)

lemma flow_dict_of_Nil: "flow_dict_of xs = [] \<longleftrightarrow> xs = []"
proof
  assume "flow_dict_of xs = []"
  then have "fst ` set (flow_dict_of xs) = {}" by simp
  then show "xs = []" by (simp add: flow_dict_of_def keys_fold_wire)
qed (simp add: flow_dict_of_def)

lemma distinct_fold_dict_set:
  "distinct (map fst acc) \<Longrightarrow> distinct (map fst (fold (\<lambda>x d. dict_set d (key x) (val x)) xs acc))"
  by (induction xs arbitrary: acc) (auto simp: distinct_dict_set)

lemma distinct_dict_comprehension: "distinct (map fst (dict_comprehension key val xs))"
  by (simp add: dict_comprehension_def distinct_fold_dict_set)

lemma Operation_eq_refl:
  "distinct (map fst (inputs a)) \<Longrightarrow> distinct (map fst (outputs a)) \<Longrightarrow> Operation_eq a a"
  by (simp add: Operation_eq_def dict_eq_refl)

lemma DataFlow_new_fields:
  "operations (DataFlow_new rt ops s c f m)
     = map (\<lambda>(k, v). (k, (operation_of v)\<lparr>instance_name := Some k\<rparr>)) ops"
  "seed (DataFlow_new rt ops s c f m) = (case s of None \<Rightarrow> [] | Some x \<Rightarrow> x)"
  "configs (DataFlow_new rt ops s c f m) = (case c of None \<Rightarrow> [] | Some x \<Rightarrow> x)"
  "flow (DataFlow_new rt ops s c f m) = (case f of None \<Rightarrow> [] | Some x \<Rightarrow> x)"
  "definitions (DataFlow_new rt ops s c f m)
     = dict_comprehension Definition.name id
         (list_of_set (definition_rank rt)
            (concat (map (\<lambda>(_, operation). map snd (inputs operation) @ map snd (outputs operation))
                         (map (\<lambda>(k, v). (k, (operation_of v)\<lparr>instance_name := Some k\<rparr>)) ops))))"
  by (simp_all add: DataFlow_new_def Let_def)


subsection \<open>Export of Operations and Inputs, instance names\<close>


text \<open>
  C8. For every Operation (its conditions being Definitions), the exported dict has no
  key "conditions" exactly when conditions is empty and no key "expand" exactly when
  expand is empty; a "conditions" key that is there holds the list of the names of the
  conditions' Definitions.
\<close>

theorem Operation_export_omits_empty:
  assumes "conditions operation = map Condition ds"
  shows "\<exists>exported. Operation_export rt operation = Inr exported
    \<and> (map_of exported ''conditions'' = None \<longleftrightarrow> conditions operation = [])
    \<and> (map_of exported ''expand'' = None \<longleftrightarrow> expand operation = [])
    \<and> (conditions operation \<noteq> [] \<longrightarrow>
         map_of exported ''conditions'' = Some (JList (map (\<lambda>d. JStr (Definition.name d)) ds)))"
proof -
  have names: "mapE condition_name (map Condition cs) = Inr (map Definition.name cs)" for cs
    by (induction cs) auto
  show ?thesis
    using assms by (simp add: Operation_export_def names o_def)
qed

theorem Operation_export_omits_empty_witness:
  "\<exists>exported. Operation_export runtime0 files_in_rpm = Inr exported
     \<and> map_of exported ''conditions'' = Some (JList [JStr ''URL''])
     \<and> map_of exported ''expand'' \<noteq> None"
  using Operation_export_omits_empty [of files_in_rpm "[URL]" runtime0]
  by (auto simp: files_in_rpm_def URL_def)

lemma Definition_roundtrip:
  "spec d = None \<Longrightarrow> Definition_fromdict rt (Definition_export rt d) = Inr d"
  by (cases d) (simp add: Definition_fromdict_def Definition_export_def Definition_new_def)

text \<open>
  C10. For every Input, Input.export returns a dict of exactly two keys, the value and the
  exported definition: two Inputs that differ in uid and parents only have the same
  export. So re-importing the export (of an Input whose Definition has no spec) gives an
  Input with no parents and a freshly drawn uid, whatever the parents and the uid were.
\<close>

theorem Input_export_omits_uid_and_parents:
  "Input_export rt i
     = [(''value'', Input.value i), (''definition'', JDict (Definition_export rt (definition i)))]
   \<and> Input_export rt (i\<lparr>parents := ps, uid := u\<rparr>) = Input_export rt i
   \<and> (spec (definition i) = None \<longrightarrow>
        Input_fromdict rt fresh (Input_export rt i)
          = Inr (i\<lparr>parents := [], uid := fresh\<rparr>))"
  by (cases i) (simp add: Input_export_def Input_fromdict_def Input_new_def bindE_def
                          Definition_roundtrip)

theorem Input_export_omits_uid_and_parents_witness:
  "Input_fromdict runtime0 ''uuid-i''
     (Input_export runtime0
        \<lparr>Input.value = JStr ''https://example.com/a.rpm'', definition = URL,
         parents = [3, 5], uid = ''seed-1''\<rparr>)
   = Inr \<lparr>Input.value = JStr ''https://example.com/a.rpm'', definition = URL,
          parents = [], uid = ''uuid-i''\<rparr>"
  using Input_export_omits_uid_and_parents
    [of runtime0 "\<lparr>Input.value = JStr ''https://example.com/a.rpm'', definition = URL,
                   parents = [3, 5], uid = ''seed-1''\<rparr>" "[]" "[]" "''uuid-i''",
     THEN conjunct2, THEN conjunct2]
  by (simp add: URL_def)

text \<open>
  C9. After the construction of a DataFlow the operations map has the keys it was given,
  and under every key k stands the Operation that was supplied under k (the \<open>.op\<close> of a
  decorated object), unchanged but for its instance_name, which is k whatever
  instance_name the supplied Operation carried.
\<close>

theorem DataFlow_new_stamps_instance_name:
  "operations (DataFlow_new rt ops s c f m)
     = map (\<lambda>(k, v). (k, (operation_of v)\<lparr>instance_name := Some k\<rparr>)) ops
   \<and> map fst (operations (DataFlow_new rt ops s c f m)) = map fst ops
   \<and> (\<forall>(k, operation) \<in> set (operations (DataFlow_new rt ops s c f m)).
        instance_name operation = Some k
        \<and> (\<exists>v. (k, v) \<in> set ops
               \<and> Operation.name operation = Operation.name (operation_of v)
               \<and> inputs operation = inputs (operation_of v)
               \<and> outputs operation = outputs (operation_of v)
               \<and> stage operation = stage (operation_of v)
               \<and> conditions operation = conditions (operation_of v)
               \<and> expand operation = expand (operation_of v)))"
proof -
  let ?stamp = "\<lambda>(k, v). (k, (operation_of v)\<lparr>instance_name := Some k\<rparr>)"
  have ops: "operations (DataFlow_new rt ops s c f m) = map ?stamp ops"
    by (simp add: DataFlow_new_def Let_def)
  have keys: "map fst (map ?stamp ops) = map fst ops"
    by (induction ops) auto
  have each: "instance_name operation = Some k
        \<and> (\<exists>v. (k, v) \<in> set ops
               \<and> Operation.name operation = Operation.name (operation_of v)
               \<and> inputs operation = inputs (operation_of v)
               \<and> outputs operation = outputs (operation_of v)
               \<and> stage operation = stage (operation_of v)
               \<and> conditions operation = conditions (operation_of v)
               \<and> expand operation = expand (operation_of v))"
    if "(k, operation) \<in> set (map ?stamp ops)" for k operation
  proof -
    from that obtain v where v: "(k, v) \<in> set ops"
      and op: "operation = (operation_of v)\<lparr>instance_name := Some k\<rparr>"
      by auto
    show ?thesis unfolding op using v by auto
  qed
  show ?thesis unfolding ops keys using each by blast
qed

theorem DataFlow_new_stamps_instance_name_witness:
  "operations (DataFlow_new runtime0
          [(''list_files'', Plain files_in_rpm),
           (''fetch'', Decorated url_to_rpm (OperationImplementation 0))]
          None None None None)
   = [(''list_files'', files_in_rpm\<lparr>instance_name := Some ''list_files''\<rparr>),
      (''fetch'', url_to_rpm\<lparr>instance_name := Some ''fetch''\<rparr>)]
   \<and> instance_name files_in_rpm = Some ''elsewhere''"
  using DataFlow_new_stamps_instance_name
    [of runtime0 "[(''list_files'', Plain files_in_rpm),
                   (''fetch'', Decorated url_to_rpm (OperationImplementation 0))]"
        None None None None]
  by (simp add: files_in_rpm_def)

subsection \<open>Auto-wiring\<close>

text \<open>
  C3, as stated, fails on a collection in which two operations have one name. Auto-wiring
  files the producers of a Definition under their names, so of fetch_rpm and
  fetch_mirrors, both named fetch, the one supplied last stands for both: the input rpm of
  files_in_rpm is wired to the two outputs of fetch_mirrors, while the outputs of
  Definition RPMObject are three.
\<close>

theorem auto_wiring_same_name:
  "Option.bind (map_of (flow (auto runtime0 [fetch_rpm, fetch_mirrors, files_in_rpm]))
                       ''files_in_rpm'')
     (\<lambda>input_flow. map_of input_flow ''rpm'') = Some [''fetch.package'', ''fetch.mirror'']
   \<and> concat (map (\<lambda>q. map (\<lambda>(out, _). Operation.name q @ ''.'' @ out)
                           (filter (\<lambda>(_, od). od = RPMObject) (outputs q)))
                  [fetch_rpm, fetch_mirrors, files_in_rpm])
       = [''fetch.rpm'', ''fetch.package'', ''fetch.mirror'']"
  by (simp add: auto_def DataFlow_new_def flow_dict_of_def output_dict_of_def wire_operation_def
        record_output_def input_sources_def producer_entries_def dict_set_def
        fetch_rpm_def fetch_mirrors_def files_in_rpm_def URL_def RPMObject_def rpm_filename_def)

text \<open>
  C3, amended. For every collection of operations with pairwise distinct names (and
  input dicts with each key once), auto-wiring assigns to each input port p with
  Definition d of each operation: the list ["seed"] when no operation output carries a
  Definition named d.name, and otherwise the list of the entries
  "<producer>.<output-port>" of every operation output whose Definition equals d.
\<close>

theorem auto_wiring_rule:
  assumes "distinct (map Operation.name ops)"
    and "operation \<in> set ops"
    and "distinct (map fst (inputs operation))"
    and "(p, d) \<in> set (inputs operation)"
  shows "\<exists>input_flow.
      map_of (flow (auto rt ops)) (Operation.name operation) = Some input_flow
      \<and> map_of input_flow p =
          Some (if \<forall>q \<in> set ops. \<forall>(out, od) \<in> set (outputs q).
                      Definition.name od \<noteq> Definition.name d
                then [''seed'']
                else concat (map (\<lambda>q. map (\<lambda>(out, _). Operation.name q @ ''.'' @ out)
                                            (filter (\<lambda>(_, od). od = d) (outputs q))) ops))"
  using fold_wire_lookup [OF assms, of "output_dict_of ops" "[]"]
  by (simp add: flow_auto flow_dict_of_def input_sources_auto [OF assms(1)])

theorem auto_wiring_rule_witness:
  "\<exists>input_flow.
      map_of (flow (auto runtime0 [zip_to_rpm, url_to_rpm, files_in_rpm])) ''files_in_rpm''
        = Some input_flow
      \<and> map_of input_flow ''rpm'' = Some [''zip_to_rpm.rpm'', ''url_to_rpm.rpm'']"
  using auto_wiring_rule
    [of "[zip_to_rpm, url_to_rpm, files_in_rpm]" files_in_rpm "''rpm''" RPMObject runtime0]
  by (simp add: zip_to_rpm_def url_to_rpm_def files_in_rpm_def URL_def RPMObject_def
        rpm_filename_def)

text \<open>
  C6, as stated, fails: the producers of a port are not emitted in lexicographic order of
  (instance, port). Supplied as zip_to_rpm, url_to_rpm, the two producers of RPMObject
  are listed in that order, though (url_to_rpm, rpm) is the smaller pair; supplied the
  other way round, they are listed the other way round.
\<close>

theorem auto_wiring_not_lexicographic:
  "Option.bind (map_of (flow (auto runtime0 [zip_to_rpm, url_to_rpm, files_in_rpm]))
                       ''files_in_rpm'')
     (\<lambda>input_flow. map_of input_flow ''rpm'') = Some [''zip_to_rpm.rpm'', ''url_to_rpm.rpm'']
   \<and> (''url_to_rpm'', ''rpm'') < (''zip_to_rpm'', ''rpm'')
   \<and> Option.bind (map_of (flow (auto runtime0 [url_to_rpm, zip_to_rpm, files_in_rpm]))
                         ''files_in_rpm'')
       (\<lambda>input_flow. map_of input_flow ''rpm'') = Some [''url_to_rpm.rpm'', ''zip_to_rpm.rpm'']"
  by (simp add: auto_def DataFlow_new_def flow_dict_of_def output_dict_of_def wire_operation_def
        record_output_def input_sources_def producer_entries_def dict_set_def
        zip_to_rpm_def url_to_rpm_def files_in_rpm_def URL_def RPMObject_def rpm_filename_def)

text \<open>
  C6, amended. In the flow produced by auto-wiring operations with pairwise distinct
  names, for every input port whose Definition has at least one producer, the producer
  entries appear in the order in which the operations were supplied and, within one
  operation, in the order of its outputs: the list is a subsequence of the list of all
  "<operation>.<output-port>" in that order.
\<close>

theorem auto_wiring_supply_order:
  assumes "distinct (map Operation.name ops)"
    and "operation \<in> set ops"
    and "distinct (map fst (inputs operation))"
    and "(p, d) \<in> set (inputs operation)"
    and "\<exists>q \<in> set ops. \<exists>(out, od) \<in> set (outputs q). Definition.name od = Definition.name d"
  shows "\<exists>input_flow sources.
      map_of (flow (auto rt ops)) (Operation.name operation) = Some input_flow
      \<and> map_of input_flow p = Some sources
      \<and> subseq sources
           (concat (map (\<lambda>q. map (\<lambda>(out, _). Operation.name q @ ''.'' @ out) (outputs q)) ops))"
proof -
  let ?all = "\<lambda>q. map (\<lambda>(out, _). Operation.name q @ ''.'' @ out) (outputs q)"
  let ?some = "\<lambda>q. map (\<lambda>(out, _). Operation.name q @ ''.'' @ out)
                        (filter (\<lambda>(_, od). od = d) (outputs q))"
  have "subseq (?some q) (?all q)" for q
    by (intro subseq_map subseq_filter_left)
  then have sub: "subseq (concat (map ?some ops)) (concat (map ?all ops))"
    by (intro subseq_concat_map)
  have "input_sources (output_dict_of ops) d = concat (map ?some ops)"
    using assms(5) by (subst input_sources_auto [OF assms(1)]) auto
  with sub show ?thesis
    using fold_wire_lookup [OF assms(1-4), of "output_dict_of ops" "[]"]
    by (auto simp: flow_auto flow_dict_of_def)
qed

theorem auto_wiring_supply_order_witness:
  "\<exists>input_flow sources.
      map_of (flow (auto runtime0 [zip_to_rpm, url_to_rpm, files_in_rpm])) ''files_in_rpm''
        = Some input_flow
      \<and> map_of input_flow ''rpm'' = Some sources
      \<and> subseq sources [''zip_to_rpm.rpm'', ''url_to_rpm.rpm'', ''files_in_rpm.files'']"
  using auto_wiring_supply_order
    [of "[zip_to_rpm, url_to_rpm, files_in_rpm]" files_in_rpm "''rpm''" RPMObject runtime0]
  by (simp add: zip_to_rpm_def url_to_rpm_def files_in_rpm_def URL_def RPMObject_def
        rpm_filename_def)

text \<open>
  C2, as stated, fails: built from one operation and one seed Input, the DataFlow whose
  flow argument is the auto-wired flow differs from the one built with the flow argument
  left out.
\<close>

theorem flow_omitted_differs_from_auto_wired:
  "\<not> DataFlow_eq
       (DataFlow_new runtime0 [(''url_to_rpm'', Plain url_to_rpm)] (Some [seed_url]) None
          (Some (flow (auto runtime0 [url_to_rpm]))) None)
       (DataFlow_new runtime0 [(''url_to_rpm'', Plain url_to_rpm)] (Some [seed_url]) None
          None None)"
  by (simp add: DataFlow_eq_def DataFlow_new_fields flow_auto dict_eq_Nil flow_dict_of_Nil)

text \<open>
  C2, amended. A DataFlow built with the flow argument left out has the empty flow: the
  constructor does no auto-wiring, only DataFlow.auto does. Building with the flow
  argument set to the auto-wired flow of a list of operations yields the same operations,
  seed, configs, definitions and implementations as building with the flow argument left
  out; the two differ in the flow alone, and so (the dicts given having each key once)
  are equal exactly when the list of operations is empty.
\<close>

theorem flow_omitted_is_empty:
  assumes "distinct (map fst ops)"
    and "\<forall>(k, v) \<in> set ops. distinct (map fst (inputs (operation_of v)))
                              \<and> distinct (map fst (outputs (operation_of v)))"
    and "distinct (map fst (case c of None \<Rightarrow> [] | Some kvs \<Rightarrow> kvs))"
  shows "operations (DataFlow_new rt ops s c (Some (flow (auto rt xs))) m)
           = operations (DataFlow_new rt ops s c None m)
    \<and> seed (DataFlow_new rt ops s c (Some (flow (auto rt xs))) m)
           = seed (DataFlow_new rt ops s c None m)
    \<and> configs (DataFlow_new rt ops s c (Some (flow (auto rt xs))) m)
           = configs (DataFlow_new rt ops s c None m)
    \<and> definitions (DataFlow_new rt ops s c (Some (flow (auto rt xs))) m)
           = definitions (DataFlow_new rt ops s c None m)
    \<and> implementations (DataFlow_new rt ops s c (Some (flow (auto rt xs))) m)
           = implementations (DataFlow_new rt ops s c None m)
    \<and> flow (DataFlow_new rt ops s c None m) = []
    \<and> flow (DataFlow_new rt ops s c (Some (flow (auto rt xs))) m) = flow_dict_of xs
    \<and> (DataFlow_eq (DataFlow_new rt ops s c (Some (flow (auto rt xs))) m)
                    (DataFlow_new rt ops s c None m)
         \<longleftrightarrow> xs = [])"
proof -
  let ?stamped = "map (\<lambda>(k, v). (k, (operation_of v)\<lparr>instance_name := Some k\<rparr>)) ops"
  have keys: "map fst ?stamped = map fst ops"
    by (induction ops) auto
  have ops_eq: "dict_eq Operation_eq ?stamped ?stamped"
  proof (rule dict_eq_refl)
    show "distinct (map fst ?stamped)" unfolding keys by (rule assms(1))
  next
    fix k operation assume "(k, operation) \<in> set ?stamped"
    then obtain v where "(k, v) \<in> set ops" "operation = (operation_of v)\<lparr>instance_name := Some k\<rparr>"
      by auto
    with assms(2) show "Operation_eq operation operation"
      by (auto intro!: Operation_eq_refl)
  qed
  have cfg: "dict_eq (=) (case c of None \<Rightarrow> [] | Some kvs \<Rightarrow> kvs) (case c of None \<Rightarrow> [] | Some kvs \<Rightarrow> kvs)"
    using assms(3) by (rule dict_eq_refl) simp
  have defs: "dict_eq (=) (dict_comprehension Definition.name id ys) (dict_comprehension Definition.name id ys)"
    for ys :: "Definition list"
    by (rule dict_eq_refl) (simp_all add: distinct_dict_comprehension)
  have imps: "implementations (DataFlow_new rt ops s c (Some (flow (auto rt xs))) m)
           = implementations (DataFlow_new rt ops s c None m)"
    by (simp add: DataFlow_new_def Let_def)
  show ?thesis
    using ops_eq cfg defs imps
    by (simp add: DataFlow_eq_def DataFlow_new_fields flow_auto dict_eq_Nil flow_dict_of_Nil)
qed

theorem flow_omitted_is_empty_witness:
  "let built = DataFlow_new runtime0 [(''url_to_rpm'', Plain url_to_rpm)] (Some [seed_url]) None
                 (Some (flow (auto runtime0 [url_to_rpm]))) None;
       plain = DataFlow_new runtime0 [(''url_to_rpm'', Plain url_to_rpm)] (Some [seed_url]) None
                 None None
   in operations built = operations plain
      \<and> seed built = [seed_url] \<and> seed plain = [seed_url]
      \<and> definitions built = definitions plain
      \<and> flow plain = []
      \<and> flow built = [(''url_to_rpm'', [(''URL'', [''seed''])])]
      \<and> \<not> DataFlow_eq built plain"
proof -
  have wired: "flow_dict_of [url_to_rpm] = [(''url_to_rpm'', [(''URL'', [''seed''])])]"
    by (simp add: flow_dict_of_def output_dict_of_def wire_operation_def record_output_def
          input_sources_def dict_set_def url_to_rpm_def URL_def RPMObject_def)
  have seeds: "seed (DataFlow_new runtime0 [(''url_to_rpm'', Plain url_to_rpm)] (Some [seed_url]) None
                 None None) = [seed_url]"
    by (simp add: DataFlow_new_fields)
  from flow_omitted_is_empty
    [of "[(''url_to_rpm'', Plain url_to_rpm)]" None runtime0 "Some [seed_url]" "[url_to_rpm]" None]
  show ?thesis
    unfolding Let_def wired seeds by (simp add: url_to_rpm_def)
qed

subsection \<open>Ancestry of Inputs\<close>

lemma set_list_of_set: "set (list_of_set rank xs) = set xs"
  by (simp add: list_of_set_def)

lemma distinct_list_of_set: "distinct (list_of_set rank xs)"
  by (simp add: list_of_set_def)

lemma those_map_Some: "those (map (\<lambda>x. Some (f x)) xs) = Some (map f xs)"
  by (induction xs) auto

lemma ancestors_unfold:
  "ancestors heap self = (\<Union>item \<in> set (parents (heap self)). insert item (ancestors heap item))"
proof -
  have "(p, self) \<in> (parent_rel heap)\<^sup>+ \<longleftrightarrow>
        (\<exists>item. (item, self) \<in> parent_rel heap \<and> (p = item \<or> (p, item) \<in> (parent_rel heap)\<^sup>+))" for p
    by (metis rtranclD rtrancl_into_trancl1 tranclE trancl.r_into_trancl trancl_into_rtrancl)
  then show ?thesis
    by (auto simp: ancestors_def parent_rel_def)
qed

lemma get_parents_step:
  assumes "\<And>item. item \<in> set (parents (heap self)) \<Longrightarrow> get_parents rt heap n item = Some (fnd item)"
  shows "get_parents rt heap (Suc n) self
     = Some (list_of_set (input_rank rt)
               (concat (map (\<lambda>item. item # list_of_set (input_rank rt) (fnd item))
                            (parents (heap self)))))"
proof -
  have "map (\<lambda>item. case get_parents rt heap n item of None \<Rightarrow> None
                    | Some found \<Rightarrow> Some (item # list_of_set (input_rank rt) found))
            (parents (heap self))
      = map (\<lambda>item. Some (item # list_of_set (input_rank rt) (fnd item))) (parents (heap self))"
    using assms by (intro map_cong) auto
  then show ?thesis by (simp only: get_parents.simps those_map_Some option.case)
qed

lemma get_parents_wf:
  assumes "wf (parent_rel heap)"
  shows "\<exists>depth found. (\<forall>n \<ge> depth. get_parents rt heap n self = Some found)
           \<and> set found = ancestors heap self \<and> distinct found"
  using assms
proof (induction self rule: wf_induct_rule)
  case (less self)
  let ?ps = "parents (heap self)"
  have "\<forall>item \<in> set ?ps. \<exists>depth found. (\<forall>n \<ge> depth. get_parents rt heap n item = Some found)
           \<and> set found = ancestors heap item \<and> distinct found"
    using less by (auto simp: parent_rel_def)
  then obtain dep fnd where each:
    "\<And>item. item \<in> set ?ps \<Longrightarrow> (\<forall>n \<ge> dep item. get_parents rt heap n item = Some (fnd item))
           \<and> set (fnd item) = ancestors heap item"
    by metis
  let ?D = "Max (insert 0 (dep ` set ?ps))"
  let ?found = "list_of_set (input_rank rt)
                  (concat (map (\<lambda>item. item # list_of_set (input_rank rt) (fnd item)) ?ps))"
  have "get_parents rt heap n self = Some ?found" if "n \<ge> Suc ?D" for n
  proof -
    from that obtain m where n: "n = Suc m" and m: "m \<ge> ?D"
      by (cases n) auto
    have "get_parents rt heap m item = Some (fnd item)" if "item \<in> set ?ps" for item
    proof -
      have "dep item \<le> ?D" using that by (intro Max_ge) auto
      then have "dep item \<le> m" using m by (rule order_trans)
      with each [OF that] show ?thesis by blast
    qed
    then show ?thesis unfolding n by (rule get_parents_step)
  qed
  moreover have "set ?found = ancestors heap self"
    using each by (subst ancestors_unfold) (auto simp: set_list_of_set)
  moreover have "distinct ?found"
    by (rule distinct_list_of_set)
  ultimately show ?case by blast
qed


text \<open>
  C7. For every Input of a heap whose parent links are finitely many and acyclic (a DAG),
  Input.get_parents returns, at every recursion depth beyond some bound, one list; that
  list holds exactly the transitive ancestors of the Input, each once.
\<close>

theorem get_parents_ancestors:
  assumes "finite (parent_rel heap)" and "acyclic (parent_rel heap)"
  shows "\<exists>depth found. (\<forall>n \<ge> depth. get_parents rt heap n self = Some found)
           \<and> set found = ancestors heap self \<and> distinct found"
  using get_parents_wf [OF finite_acyclic_wf [OF assms]] .

lemma parent_rel_heap0: "parent_rel heap0 = {(0, 2), (1, 2), (2, 3), (1, 3)}"
  by (auto simp: parent_rel_def heap0_def split: if_splits)

theorem get_parents_ancestors_witness:
  "\<exists>depth found. (\<forall>n \<ge> depth. get_parents runtime0 heap0 n 3 = Some found)
       \<and> set found = {0, 1, 2} \<and> distinct found"
proof -
  have fin: "finite (parent_rel heap0)" by (simp add: parent_rel_heap0)
  have "parent_rel heap0 \<subseteq> less_than" by (auto simp: parent_rel_heap0)
  then have "wf (parent_rel heap0)" by (rule wf_subset [OF wf_less_than])
  then have acyc: "acyclic (parent_rel heap0)" by (rule wf_acyclic)
  have ps: "parents (heap0 0) = []" "parents (heap0 1) = []" "parents (heap0 (Suc 0)) = []"
      "parents (heap0 2) = [0, 1]" "parents (heap0 3) = [2, 1]"
    by (simp_all add: heap0_def)
  have a0: "ancestors heap0 0 = {}" by (subst ancestors_unfold) (simp add: ps)
  have a1: "ancestors heap0 (Suc 0) = {}" by (subst ancestors_unfold) (simp add: ps)
  have a2: "ancestors heap0 2 = {0, 1}" by (subst ancestors_unfold) (auto simp: ps a0 a1)
  have anc: "ancestors heap0 3 = {0, 1, 2}"
    by (subst ancestors_unfold) (auto simp: ps a0 a1 a2)
  show ?thesis
    using get_parents_ancestors [OF fin acyc, of runtime0 3] by (simp add: anc)
qed

subsection \<open>Import of a linked DataFlow\<close>

text \<open>
  C5: the code against the claim. A linked DataFlow dict whose operation files_in_rpm
  takes an input of the definition RPMObject, which the definitions table does not hold,
  makes DataFlow._fromdict raise NameError, not DefinitionMissing: the module never
  defines or imports that name. With an empty definitions table and an operation without
  ports ahead of the one with the missing reference, the exception is the
  UnboundLocalError of the variable \<open>name\<close>.
\<close>

theorem linked_import_missing_definition:
  "DataFlow_fromdict runtime0
     [(''operations'',
       JDict [(''files_in_rpm'',
               JDict [(''name'', JStr ''files_in_rpm''),
                      (''inputs'', JDict [(''rpm'', JStr ''RPMObject'')]),
                      (''outputs'', JDict [(''files'', JStr ''rpm_filename'')]),
                      (''stage'', JStr ''processing'')])]),
      (''seed'', JList []),
      (''configs'', JDict []),
      (''flow'', JDict []),
      (''linked'', JBool True),
      (''definitions'',
       JDict [(''rpm_filename'',
               JDict [(''name'', JStr ''rpm_filename''), (''primitive'', JStr ''str'')])])]
   = Inl (NameError ''DefinitionMissing'')
   \<and> DataFlow_fromdict runtime0
     [(''operations'',
       JDict [(''noop'',
               JDict [(''name'', JStr ''noop''), (''inputs'', JDict []), (''outputs'', JDict []),
                      (''stage'', JStr ''processing'')]),
              (''files_in_rpm'',
               JDict [(''name'', JStr ''files_in_rpm''),
                      (''inputs'', JDict [(''rpm'', JStr ''RPMObject'')]),
                      (''outputs'', JDict []),
                      (''stage'', JStr ''processing'')])]),
      (''seed'', JList []),
      (''configs'', JDict []),
      (''flow'', JDict []),
      (''linked'', JBool True),
      (''definitions'', JDict [])]
   = Inl (UnboundLocalError ''name'')"
  by (simp add: DataFlow_fromdict_def resolve_operations_def resolve_operation_def
        resolve_reference_def bindE_def dict_set_def dict_setdefault_def)

subsection \<open>The derived definitions\<close>

lemma find_snoc:
  "find P (xs @ [x]) = (case find P xs of None \<Rightarrow> (if P x then Some x else None) | Some y \<Rightarrow> Some y)"
  by (induction xs) auto

lemma map_of_fold_dict_set:
  "map_of (fold (\<lambda>x d. dict_set d (key x) (val x)) xs acc) k =
     (case find (\<lambda>x. key x = k) (rev xs) of None \<Rightarrow> map_of acc k | Some x \<Rightarrow> Some (val x))"
  by (induction xs arbitrary: acc) (auto simp: find_snoc map_of_dict_set split: option.splits)

lemma map_of_dict_comprehension:
  "map_of (dict_comprehension key val xs) k = map_option val (find (\<lambda>x. key x = k) (rev xs))"
  by (simp add: dict_comprehension_def map_of_fold_dict_set split: option.splits)

lemma dict_comprehension_Some:
  "map_of (dict_comprehension key val xs) k = Some v \<Longrightarrow> \<exists>x \<in> set xs. key x = k \<and> val x = v"
  by (auto simp: map_of_dict_comprehension find_Some_iff) (metis nth_mem length_rev set_rev)

lemma dict_comprehension_bound:
  "x \<in> set xs \<Longrightarrow> \<exists>y \<in> set xs. key y = key x \<and> map_of (dict_comprehension key val xs) (key x) = Some (val y)"
proof -
  assume "x \<in> set xs"
  then have "find (\<lambda>y. key y = key x) (rev xs) \<noteq> None"
    by (auto simp: find_None_iff)
  then obtain y where y: "find (\<lambda>y. key y = key x) (rev xs) = Some y" by auto
  then have "key y = key x" "y \<in> set xs"
    by (auto simp: find_Some_iff) (metis nth_mem length_rev set_rev)
  with y show ?thesis by (auto simp: map_of_dict_comprehension)
qed

lemma definitions_DataFlow_new:
  "definitions (DataFlow_new rt ops s c f m)
     = dict_comprehension Definition.name id
         (list_of_set (definition_rank rt) (port_definitions (DataFlow_new rt ops s c f m)))"
  by (simp add: port_definitions_def DataFlow_new_fields)


text \<open>
  C4, as stated, fails: two operations bind the name URL to two distinct Definitions on
  their input ports, and the construction goes through; the definitions map keeps one of
  the two under that name.
\<close>

theorem definitions_collision_not_rejected:
  "let df = DataFlow_new runtime0
              [(''url_to_rpm'', Plain url_to_rpm), (''bytes_to_rpm'', Plain bytes_to_rpm)]
              None None None None
   in URL \<in> set (port_definitions df) \<and> URL_bytes \<in> set (port_definitions df)
      \<and> Definition.name URL = Definition.name URL_bytes \<and> URL \<noteq> URL_bytes
      \<and> definitions df = [(''URL'', URL_bytes), (''RPMObject'', RPMObject)]"
  by (simp add: DataFlow_new_def port_definitions_def dict_comprehension_def dict_set_def
        list_of_set_def runtime0_def url_to_rpm_def bytes_to_rpm_def URL_def URL_bytes_def
        RPMObject_def)

text \<open>
  C4, amended. For every DataFlow, the derived definitions map binds the name of every
  Definition on an input or output port of its operations to a Definition of that name
  on such a port; each of its entries is a Definition, filed under its own name, that
  appears on the operations; no name is bound twice. Two distinct Definitions of one name
  are not rejected: the map keeps one of them. When the Definitions on the ports are
  determined by their names, the map binds each name to that Definition.
\<close>

theorem definitions_from_ports:
  "let df = DataFlow_new rt ops s c f m; ports = set (port_definitions df) in
     (\<forall>d \<in> ports. \<exists>d' \<in> ports. Definition.name d' = Definition.name d
                      \<and> map_of (definitions df) (Definition.name d) = Some d')
     \<and> (\<forall>(n, d) \<in> set (definitions df).
           Definition.name d = n \<and> d \<in> ports \<union> set (condition_definitions df))
     \<and> distinct (map fst (definitions df))
     \<and> ((\<forall>d \<in> ports. \<forall>d' \<in> ports. Definition.name d = Definition.name d' \<longrightarrow> d = d')
          \<longrightarrow> (\<forall>d \<in> ports. map_of (definitions df) (Definition.name d) = Some d))"
proof -
  let ?df = "DataFlow_new rt ops s c f m"
  let ?ports = "set (port_definitions ?df)"
  let ?xs = "list_of_set (definition_rank rt) (port_definitions ?df)"
  have defs: "definitions ?df = dict_comprehension Definition.name id ?xs"
    by (rule definitions_DataFlow_new)
  have xs: "set ?xs = ?ports" by (rule set_list_of_set)
  have bound: "\<exists>d' \<in> ?ports. Definition.name d' = Definition.name d
                 \<and> map_of (definitions ?df) (Definition.name d) = Some d'" if "d \<in> ?ports" for d
    using dict_comprehension_bound [of d ?xs Definition.name id] that
    unfolding defs xs by simp
  have dist: "distinct (map fst (definitions ?df))"
    unfolding defs by (rule distinct_dict_comprehension)
  have entry: "Definition.name d = n \<and> d \<in> ?ports" if "(n, d) \<in> set (definitions ?df)" for n d
  proof -
    from that dist have "map_of (definitions ?df) n = Some d" by simp
    from dict_comprehension_Some [OF this [unfolded defs]] show ?thesis
      unfolding xs by auto
  qed
  have same: "map_of (definitions ?df) (Definition.name d) = Some d"
    if "\<forall>d \<in> ?ports. \<forall>d' \<in> ?ports. Definition.name d = Definition.name d' \<longrightarrow> d = d'"
      and "d \<in> ?ports" for d
    using bound [OF that(2)] that by metis
  show ?thesis
    unfolding Let_def using bound entry dist same by blast
qed

theorem definitions_from_ports_witness:
  "map_of (definitions (DataFlow_new runtime0
             [(''fetch'', Plain url_to_rpm), (''list'', Plain files_in_rpm)]
             None None None None)) ''rpm_filename''
     = Some rpm_filename"
proof -
  let ?df = "DataFlow_new runtime0
               [(''fetch'', Plain url_to_rpm), (''list'', Plain files_in_rpm)]
               None None None None"
  have ports: "set (port_definitions ?df) = {URL, RPMObject, rpm_filename}"
    by (auto simp: port_definitions_def DataFlow_new_fields url_to_rpm_def files_in_rpm_def)
  have "\<forall>d \<in> set (port_definitions ?df). \<forall>d' \<in> set (port_definitions ?df).
          Definition.name d = Definition.name d' \<longrightarrow> d = d'"
    unfolding ports by (simp add: URL_def RPMObject_def rpm_filename_def)
  with definitions_from_ports
    [of runtime0 "[(''fetch'', Plain url_to_rpm), (''list'', Plain files_in_rpm)]"
        None None None None, unfolded Let_def]
  have "\<forall>d \<in> set (port_definitions ?df).
          map_of (definitions ?df) (Definition.name d) = Some d"
    by blast
  then have "map_of (definitions ?df) (Definition.name rpm_filename) = Some rpm_filename"
    unfolding ports by blast
  then show ?thesis by (simp add: rpm_filename_def)
qed

subsection \<open>Export followed by import\<close>

lemma mapE_Inr: "(\<And>x. x \<in> set xs \<Longrightarrow> f x = Inr (g x)) \<Longrightarrow> mapE f xs = Inr (map g xs)"
  by (induction xs) auto

lemma bindE_Inr [simp]: "bindE (Inr x) f = f x"
  by (simp add: bindE_def)

lemma bindE_Inl [simp]: "bindE (Inl e) f = Inl e"
  by (simp add: bindE_def)

lemma str_list_map_JStr: "str_list (map JStr ss) = Some ss"
  by (induction ss) auto

lemma Stage_roundtrip: "Stage_getitem (upper (Stage_value st)) = Inr st"
  by (cases st) (simp_all add: upper_def Stage_getitem_def)

lemma definitions_fromdict_export:
  assumes "map_of kwargs prop = Some (export_ports rt ports)"
    and "\<forall>(k, d) \<in> set ports. spec d = None"
  shows "definitions_fromdict rt kwargs prop = Inr ports"
proof -
  have "mapE (\<lambda>(argument_name, dj). case dj of
                JDict dd \<Rightarrow> bindE (Definition_fromdict rt dd) (\<lambda>d. Inr (argument_name, d))
              | _ \<Rightarrow> Inl (TypeError ''argument after ** must be a mapping''))
             (map (\<lambda>(k, d). (k, JDict (Definition_export rt d))) ports)
        = Inr (map (\<lambda>x. x) ports)"
    unfolding mapE_Inr [symmetric]
    using assms(2) by (induction ports) (auto simp: Definition_roundtrip)
  then show ?thesis
    using assms(1) by (simp add: definitions_fromdict_def export_ports_def)
qed

text \<open>The export of an operation without conditions.\<close>

lemma Operation_export_plain:
  "conditions operation = [] \<Longrightarrow>
   Operation_export rt operation =
     Inr ([(''name'', JStr (Operation.name operation)),
           (''inputs'', export_ports rt (inputs operation)),
           (''outputs'', export_ports rt (outputs operation)),
           (''stage'', JStr (Stage_value (stage operation)))]
          @ (if expand operation = [] then []
             else [(''expand'', JList (map JStr (expand operation)))]))"
  by (simp add: Operation_export_def)

lemma Operation_fromdict_export:
  assumes "\<forall>(k, d) \<in> set (inputs operation). spec d = None"
    and "\<forall>(k, d) \<in> set (outputs operation). spec d = None"
  shows "Operation_fromdict rt
     (([(''name'', JStr (Operation.name operation)),
        (''inputs'', export_ports rt (inputs operation)),
        (''outputs'', export_ports rt (outputs operation)),
        (''stage'', JStr (Stage_value (stage operation)))]
       @ (if expand operation = [] then []
          else [(''expand'', JList (map JStr (expand operation)))]))
      @ [(''instance_name'', JStr k)])
     = Inr (operation\<lparr>conditions := [], instance_name := Some k\<rparr>)"
proof -
  let ?kw = "([(''name'', JStr (Operation.name operation)),
        (''inputs'', export_ports rt (inputs operation)),
        (''outputs'', export_ports rt (outputs operation)),
        (''stage'', JStr (Stage_value (stage operation)))]
       @ (if expand operation = [] then []
          else [(''expand'', JList (map JStr (expand operation)))]))
      @ [(''instance_name'', JStr k)]"
  have ins: "definitions_fromdict rt ?kw ''inputs'' = Inr (inputs operation)"
    using assms(1) by (intro definitions_fromdict_export) auto
  have outs: "definitions_fromdict rt ?kw ''outputs'' = Inr (outputs operation)"
    using assms(2) by (intro definitions_fromdict_export) auto
  show ?thesis
    unfolding Operation_fromdict_def ins outs
    by (cases operation) (simp add: Stage_roundtrip str_list_map_JStr)
qed

lemma mapE_map_Inr:
  "(\<And>x. x \<in> set xs \<Longrightarrow> f (h x) = Inr (g x)) \<Longrightarrow> mapE f (map h xs) = Inr (map g xs)"
  by (induction xs) auto

lemma mapE_enumerate_Inr:
  "(\<And>k x. x \<in> set xs \<Longrightarrow> f (k, h x) = Inr (g (k, x))) \<Longrightarrow>
   mapE f (enumerate n (map h xs)) = Inr (map g (enumerate n xs))"
  by (induction xs arbitrary: n) auto

lemma Operation_roundtrip:
  assumes "conditions operation = []"
    and "\<forall>(k, d) \<in> set (inputs operation). spec d = None"
    and "\<forall>(k, d) \<in> set (outputs operation). spec d = None"
  shows "Operation_export rt operation = Inr (projr (Operation_export rt operation))"
    and "map_of (projr (Operation_export rt operation)) ''instance_name'' = None"
    and "Operation_fromdict rt
           (projr (Operation_export rt operation) @ [(''instance_name'', JStr k)])
         = Inr (operation\<lparr>instance_name := Some k\<rparr>)"
proof -
  show "Operation_export rt operation = Inr (projr (Operation_export rt operation))"
    by (simp add: Operation_export_plain [OF assms(1)])
  show "map_of (projr (Operation_export rt operation)) ''instance_name'' = None"
    by (simp add: Operation_export_plain [OF assms(1)])
  have "operation\<lparr>conditions := [], instance_name := Some k\<rparr> = operation\<lparr>instance_name := Some k\<rparr>"
    using assms(1) by (cases operation) simp
  then show "Operation_fromdict rt
           (projr (Operation_export rt operation) @ [(''instance_name'', JStr k)])
         = Inr (operation\<lparr>instance_name := Some k\<rparr>)"
    using Operation_fromdict_export [OF assms(2,3), of rt k]
    by (simp add: Operation_export_plain [OF assms(1)])
qed

lemma InputFlow_roundtrip:
  "InputFlow_of (JDict (map (\<lambda>(port, sources). (port, JList (map JStr sources))) input_flow))
     = Inr input_flow"
proof -
  have "mapE flow_sources
             (map (\<lambda>(port, sources). (port, JList (map JStr sources))) input_flow)
        = Inr (map (\<lambda>x. x) input_flow)"
    by (intro mapE_map_Inr) (auto simp: flow_sources_def str_list_map_JStr)
  then show ?thesis by (simp add: InputFlow_of_def)
qed

lemma Input_roundtrip:
  "spec (definition i) = None \<Longrightarrow>
   Input_fromdict rt fresh (Input_export rt i) = Inr (i\<lparr>parents := [], uid := fresh\<rparr>)"
  by (cases i) (simp add: Input_export_def Input_fromdict_def Input_new_def Definition_roundtrip)

lemma fromdict_plain:
  assumes ops_ok: "\<forall>(k, operation) \<in> set ops. conditions operation = []
            \<and> (\<forall>(p, d) \<in> set (inputs operation). spec d = None)
            \<and> (\<forall>(p, d) \<in> set (outputs operation). spec d = None)"
    and seeds_ok: "\<forall>i \<in> set seeds. spec (definition i) = None"
  shows "DataFlow_fromdict rt
     [(''operations'',
       JDict (map (\<lambda>(k, operation). (k, JDict (projr (Operation_export rt operation)))) ops)),
      (''seed'', JList (map (\<lambda>i. JDict (Input_export rt i)) seeds)),
      (''configs'', JDict cfg),
      (''flow'', export_flow flows)]
   = Inr (DataFlow_new rt
            (map (\<lambda>(k, operation). (k, Plain (operation\<lparr>instance_name := Some k\<rparr>))) ops)
            (Some (reimported_seed rt seeds)) (Some cfg) (Some flows) None)"
proof -
  have ops: "mapE (\<lambda>(instance_name, operation). case operation of
                JDict o_dict \<Rightarrow>
                  if map_of o_dict ''instance_name'' \<noteq> None
                  then Inl (TypeError ''got multiple values for keyword argument'')
                  else bindE (Operation_fromdict rt
                                (o_dict @ [(''instance_name'', JStr instance_name)]))
                         (\<lambda>operation. Inr (instance_name, Plain operation))
              | _ \<Rightarrow> Inl (TypeError ''argument after ** must be a mapping''))
            (map (\<lambda>(k, operation). (k, JDict (projr (Operation_export rt operation)))) ops)
      = Inr (map (\<lambda>(k, operation). (k, Plain (operation\<lparr>instance_name := Some k\<rparr>))) ops)"
    using ops_ok by (intro mapE_map_Inr) (auto simp: Operation_roundtrip(2,3))
  have seeds: "mapE (\<lambda>(n, input_data). case input_data of
                  JDict i_dict \<Rightarrow> Input_fromdict rt (uuid4 rt n) i_dict
                | _ \<Rightarrow> Inl (TypeError ''argument after ** must be a mapping''))
              (enumerate 0 (map (\<lambda>i. JDict (Input_export rt i)) seeds))
      = Inr (reimported_seed rt seeds)"
    unfolding reimported_seed_def
    using seeds_ok by (intro mapE_enumerate_Inr) (auto simp: Input_roundtrip)
  have flows: "mapE (\<lambda>(instance_name, input_flow).
                  bindE (InputFlow_of input_flow) (\<lambda>f. Inr (instance_name, f)))
              (map (\<lambda>(instance_name, input_flow).
                   (instance_name,
                    JDict (map (\<lambda>(port, sources). (port, JList (map JStr sources))) input_flow)))
                flows)
      = Inr (map (\<lambda>x. x) flows)"
    by (intro mapE_map_Inr) (auto simp: InputFlow_roundtrip)
  show ?thesis
    by (simp add: DataFlow_fromdict_def export_flow_def ops seeds flows del: not_None_eq)
qed

lemma definitions_lookup:
  assumes "d \<in> set (port_definitions (DataFlow_new rt ops s c f m))"
    and "\<forall>a \<in> set (port_definitions (DataFlow_new rt ops s c f m)).
         \<forall>b \<in> set (port_definitions (DataFlow_new rt ops s c f m)).
           Definition.name a = Definition.name b \<longrightarrow> a = b"
  shows "map_of (definitions (DataFlow_new rt ops s c f m)) (Definition.name d) = Some d"
proof -
  let ?df = "DataFlow_new rt ops s c f m"
  let ?xs = "list_of_set (definition_rank rt) (port_definitions ?df)"
  from assms(1) have "d \<in> set ?xs" by (simp add: set_list_of_set)
  from dict_comprehension_bound [OF this, of Definition.name id]
  obtain y where "y \<in> set (port_definitions ?df)" "Definition.name y = Definition.name d"
    "map_of (definitions ?df) (Definition.name d) = Some y"
    by (auto simp: definitions_DataFlow_new set_list_of_set)
  with assms show ?thesis by metis
qed

lemma map_of_export_ports:
  "map_of ports k = Some d \<Longrightarrow>
   map_of (map (\<lambda>(k, d). (k, JDict (Definition_export rt d))) ports) k
     = Some (JDict (Definition_export rt d))"
  by (induction ports) auto

lemma table_setdefault:
  "mapE (\<lambda>(n, d). case d of
            JDict dd \<Rightarrow> Inr (n, JDict (dict_setdefault dd ''name'' (JStr n)))
          | _ \<Rightarrow> Inl (AttributeError ''object has no attribute setdefault''))
        (map (\<lambda>(k, d). (k, JDict (Definition_export rt d))) defs)
   = Inr (map (\<lambda>(k, d). (k, JDict (Definition_export rt d))) defs)"
proof -
  have "mapE (\<lambda>(n, d). case d of
            JDict dd \<Rightarrow> Inr (n, JDict (dict_setdefault dd ''name'' (JStr n)))
          | _ \<Rightarrow> Inl (AttributeError ''object has no attribute setdefault''))
        (map (\<lambda>(k, d). (k, JDict (Definition_export rt d))) defs)
     = Inr (map (\<lambda>(k, d). (k, JDict (Definition_export rt d))) defs)"
    by (intro mapE_map_Inr) (auto simp: dict_setdefault_def Definition_export_def)
  then show ?thesis .
qed

lemma resolve_ports:
  assumes "\<forall>(k, d) \<in> set ports. map_of table (Definition.name d) = Some (JDict (Definition_export rt d))"
  shows "mapE (\<lambda>(input_name, definition_name).
                 bindE (resolve_reference table definition_name) (\<lambda>d. Inr (input_name, d)))
              (map (\<lambda>(k, d). (k, JStr (Definition.name d))) ports)
         = Inr (map (\<lambda>(k, d). (k, JDict (Definition_export rt d))) ports)"
  using assms by (intro mapE_map_Inr) (auto simp: resolve_reference_def)

lemma resolve_operation_linked:
  assumes "conditions operation = []"
    and "\<forall>(k, d) \<in> set (inputs operation).
           map_of table (Definition.name d) = Some (JDict (Definition_export rt d))"
    and "\<forall>(k, d) \<in> set (outputs operation).
           map_of table (Definition.name d) = Some (JDict (Definition_export rt d))"
  shows "resolve_operation table (Some n)
           (dict_set (dict_set (projr (Operation_export rt operation))
                        ''inputs'' (link_ports (inputs operation)))
                     ''outputs'' (link_ports (outputs operation)))
         = Inr (projr (Operation_export rt operation))"
  by (simp add: Operation_export_plain [OF assms(1)] resolve_operation_def dict_set_def
        dict_setdefault_def link_ports_def export_ports_def
        resolve_ports [OF assms(2)] resolve_ports [OF assms(3)])

lemma fold_linked_operations:
  assumes "distinct (map fst xs)"
    and "fst ` set xs \<inter> fst ` set acc = {}"
    and "\<forall>(k, operation) \<in> set xs. instance_name operation = Some k \<and> conditions operation = []"
  shows "fold (\<lambda>(_, operation) acc. bindE acc (\<lambda>exported.
             bindE (Operation_export rt operation) (\<lambda>exported_operation.
               case instance_name operation of
                 None \<Rightarrow> Inl (OutsideModel ''an exported dict with the key None'')
               | Some key \<Rightarrow>
                   Inr (dict_set exported key
                         (JDict (dict_set
                                  (dict_set exported_operation ''inputs''
                                     (link_ports (inputs operation)))
                                  ''outputs'' (link_ports (outputs operation))))))))
          xs (Inr acc)
     = Inr (acc @ map (\<lambda>(k, operation).
                         (k, JDict (dict_set (dict_set (projr (Operation_export rt operation))
                                                ''inputs'' (link_ports (inputs operation)))
                                             ''outputs'' (link_ports (outputs operation)))))
                      xs)"
  using assms
proof (induction xs arbitrary: acc)
  case Nil
  then show ?case by simp
next
  case (Cons x xs)
  obtain k operation where x: "x = (k, operation)" by (cases x)
  from Cons.prems x have inst: "instance_name operation = Some k"
    and cond: "conditions operation = []"
    and new: "k \<notin> fst ` set acc" by auto
  let ?entry = "(k, JDict (dict_set (dict_set (projr (Operation_export rt operation))
                                       ''inputs'' (link_ports (inputs operation)))
                                    ''outputs'' (link_ports (outputs operation))))"
  have "fst ` set xs \<inter> fst ` set (acc @ [?entry]) = {}"
    using Cons.prems x by auto
  moreover have "distinct (map fst xs)" using Cons.prems by simp
  moreover have "\<forall>(k, operation) \<in> set xs. instance_name operation = Some k \<and> conditions operation = []"
    using Cons.prems by simp
  ultimately show ?case
    using Cons.IH [of "acc @ [?entry]"] inst new
    by (simp add: x Operation_export_plain [OF cond] dict_set_new)
qed

lemma linked_operations_plain:
  assumes "distinct (map fst (operations self))"
    and "\<forall>(k, operation) \<in> set (operations self).
           instance_name operation = Some k \<and> conditions operation = []"
  shows "linked_operations rt self
     = Inr (map (\<lambda>(k, operation).
                   (k, JDict (dict_set (dict_set (projr (Operation_export rt operation))
                                          ''inputs'' (link_ports (inputs operation)))
                                       ''outputs'' (link_ports (outputs operation)))))
                (operations self))"
  unfolding linked_operations_def
  using fold_linked_operations [OF assms(1) _ assms(2), of "[]" rt] by simp

lemma unlinked_operations_plain:
  assumes "\<forall>(k, operation) \<in> set ops. conditions operation = []"
  shows "mapE (\<lambda>(instance_name, operation).
                 bindE (Operation_export rt operation)
                   (\<lambda>exported. Inr (instance_name, JDict exported)))
              ops
     = Inr (map (\<lambda>(k, operation). (k, JDict (projr (Operation_export rt operation)))) ops)"
  using assms by (intro mapE_Inr) (auto simp: Operation_export_plain)

lemma resolve_operations_linked:
  assumes conds: "\<forall>(k, operation) \<in> set ops. conditions operation = []"
    and known: "\<forall>(k, operation) \<in> set ops. \<forall>(p, d) \<in> set (inputs operation @ outputs operation).
                 map_of defs (Definition.name d) = Some d"
    and some: "ops = [] \<or> defs \<noteq> []"
  shows "resolve_operations
     [(''operations'',
       JDict (map (\<lambda>(k, operation).
                     (k, JDict (dict_set (dict_set (projr (Operation_export rt operation))
                                            ''inputs'' (link_ports (inputs operation)))
                                         ''outputs'' (link_ports (outputs operation)))))
                  ops)),
      (''seed'', sd), (''configs'', cfg), (''flow'', fl),
      (''definitions'', export_ports rt defs)]
   = Inr (map (\<lambda>(k, operation). (k, JDict (projr (Operation_export rt operation)))) ops)"
proof -
  let ?table = "map (\<lambda>(k, d). (k, JDict (Definition_export rt d))) defs"
  let ?name = "if defs = [] then None else Some (fst (last ?table))"
  have each: "resolve_operation ?table ?name
                (dict_set (dict_set (projr (Operation_export rt operation))
                             ''inputs'' (link_ports (inputs operation)))
                          ''outputs'' (link_ports (outputs operation)))
              = Inr (projr (Operation_export rt operation))"
    if "(k, operation) \<in> set ops" for k operation
  proof -
    from that some have "defs \<noteq> []" by auto
    then obtain n where n: "?name = Some n" by simp
    have c: "conditions operation = []" using conds that by auto
    have port: "map_of defs (Definition.name d) = Some d"
      if "(p, d) \<in> set (inputs operation @ outputs operation)" for p d
      using known \<open>(k, operation) \<in> set ops\<close> that by fastforce
    have i: "\<forall>(k, d) \<in> set (inputs operation).
               map_of ?table (Definition.name d) = Some (JDict (Definition_export rt d))"
      using port by (auto intro!: map_of_export_ports)
    have o: "\<forall>(k, d) \<in> set (outputs operation).
               map_of ?table (Definition.name d) = Some (JDict (Definition_export rt d))"
      using port by (auto intro!: map_of_export_ports)
    show ?thesis unfolding n by (rule resolve_operation_linked [OF c i o])
  qed
  have "mapE (\<lambda>(instance_name, operation). case operation of
                JDict o_dict \<Rightarrow>
                  bindE (resolve_operation ?table ?name o_dict)
                    (\<lambda>resolved. Inr (instance_name, JDict resolved))
              | _ \<Rightarrow> Inl (OutsideModel ''an operation is not a dict''))
             (map (\<lambda>(k, operation).
                     (k, JDict (dict_set (dict_set (projr (Operation_export rt operation))
                                            ''inputs'' (link_ports (inputs operation)))
                                         ''outputs'' (link_ports (outputs operation)))))
                  ops)
        = Inr (map (\<lambda>(k, operation). (k, JDict (projr (Operation_export rt operation)))) ops)"
  proof (intro mapE_map_Inr)
    fix x assume x: "x \<in> set ops"
    obtain k operation where kx: "x = (k, operation)" by (cases x)
    show "(\<lambda>(instance_name, operation). case operation of
                JDict o_dict \<Rightarrow>
                  bindE (resolve_operation ?table ?name o_dict)
                    (\<lambda>resolved. Inr (instance_name, JDict resolved))
              | _ \<Rightarrow> Inl (OutsideModel ''an operation is not a dict''))
            ((\<lambda>(k, operation).
                     (k, JDict (dict_set (dict_set (projr (Operation_export rt operation))
                                            ''inputs'' (link_ports (inputs operation)))
                                         ''outputs'' (link_ports (outputs operation))))) x)
          = Inr ((\<lambda>(k, operation). (k, JDict (projr (Operation_export rt operation)))) x)"
      using each [OF x [unfolded kx]]
      by (simp only: kx split_conv json.case bindE_Inr)
  qed
  then show ?thesis
    by (simp add: resolve_operations_def export_ports_def table_setdefault split del: if_split)
qed

lemma fromdict_linked_reduces:
  assumes "resolve_operations
             [(''operations'', lo), (''seed'', sd), (''configs'', cfg), (''flow'', fl),
              (''definitions'', table)] = Inr eo"
  shows "DataFlow_fromdict rt
           [(''operations'', lo), (''seed'', sd), (''configs'', cfg), (''flow'', fl),
            (''linked'', JBool True), (''definitions'', table)]
       = DataFlow_fromdict rt
           [(''operations'', JDict eo), (''seed'', sd), (''configs'', cfg), (''flow'', fl)]"
  by (simp add: DataFlow_fromdict_def assms dict_set_def del: not_None_eq)

lemma export_unlinked:
  assumes "\<forall>(k, operation) \<in> set (operations self). conditions operation = []"
  shows "DataFlow_export rt False self =
     Inr [(''operations'',
           JDict (map (\<lambda>(k, operation). (k, JDict (projr (Operation_export rt operation))))
                      (operations self))),
          (''seed'', JList (map (\<lambda>i. JDict (Input_export rt i)) (seed self))),
          (''configs'', JDict (configs self)),
          (''flow'', export_flow (flow self))]"
  by (simp add: DataFlow_export_def unlinked_operations_plain [OF assms])

lemma export_linked:
  assumes "distinct (map fst (operations self))"
    and "\<forall>(k, operation) \<in> set (operations self).
           instance_name operation = Some k \<and> conditions operation = []"
  shows "DataFlow_export rt True self =
     Inr [(''operations'',
           JDict (map (\<lambda>(k, operation).
                   (k, JDict (dict_set (dict_set (projr (Operation_export rt operation))
                                          ''inputs'' (link_ports (inputs operation)))
                                       ''outputs'' (link_ports (outputs operation)))))
                (operations self))),
          (''seed'', JList (map (\<lambda>i. JDict (Input_export rt i)) (seed self))),
          (''configs'', JDict (configs self)),
          (''flow'', export_flow (flow self)),
          (''linked'', JBool True),
          (''definitions'', export_ports rt (definitions self))]"
  by (simp add: DataFlow_export_def linked_operations_plain [OF assms])

lemma port_definitions_cong:
  "operations a = operations b \<Longrightarrow> port_definitions a = port_definitions b"
  by (simp add: port_definitions_def)

lemma reimport_fields:
  assumes "d = DataFlow_new rt ops s c f m"
    and d'_def: "d' = DataFlow_new rt
            (map (\<lambda>(k, operation). (k, Plain (operation\<lparr>instance_name := Some k\<rparr>)))
                 (operations d))
            (Some sd) (Some (configs d)) (Some (flow d)) None"
  shows "operations d' = operations d" "configs d' = configs d" "flow d' = flow d"
    "definitions d' = definitions d" "seed d' = sd"
proof -
  show ops: "operations d' = operations d"
    unfolding d'_def assms(1) by (simp add: DataFlow_new_fields o_def split_def)
  show "configs d' = configs d" "flow d' = flow d" "seed d' = sd"
    unfolding d'_def by (simp_all add: DataFlow_new_fields)
  show "definitions d' = definitions d"
    unfolding d'_def assms(1) definitions_DataFlow_new
    using port_definitions_cong [OF ops [unfolded d'_def assms(1)]] by simp
qed

lemma port_member:
  assumes "(k, operation) \<in> set (operations d)"
    and "(p, x) \<in> set (inputs operation @ outputs operation)"
  shows "x \<in> set (port_definitions d)"
proof -
  from assms(2) have "x \<in> set (map snd (inputs operation) @ map snd (outputs operation))"
    by force
  with assms(1) show ?thesis
    unfolding port_definitions_def set_concat set_map by blast
qed

lemma ops_plain:
  assumes conds: "\<forall>(k, operation) \<in> set (operations d). conditions operation = []"
    and no_spec: "\<forall>x \<in> set (port_definitions d). spec x = None"
  shows "\<forall>(k, operation) \<in> set (operations d). conditions operation = []
            \<and> (\<forall>(p, x) \<in> set (inputs operation). spec x = None)
            \<and> (\<forall>(p, x) \<in> set (outputs operation). spec x = None)"
proof (intro ballI)
  fix e assume e: "e \<in> set (operations d)"
  obtain k operation where ke: "e = (k, operation)" by (cases e)
  have c: "conditions operation = []" using conds e ke by auto
  have i: "spec x = None" if "(p, x) \<in> set (inputs operation)" for p x
  proof -
    from that have "(p, x) \<in> set (inputs operation @ outputs operation)" by simp
    from port_member [OF e [unfolded ke] this] no_spec show ?thesis by blast
  qed
  have o: "spec x = None" if "(p, x) \<in> set (outputs operation)" for p x
  proof -
    from that have "(p, x) \<in> set (inputs operation @ outputs operation)" by simp
    from port_member [OF e [unfolded ke] this] no_spec show ?thesis by blast
  qed
  show "case e of (k, operation) \<Rightarrow> conditions operation = []
            \<and> (\<forall>(p, x) \<in> set (inputs operation). spec x = None)
            \<and> (\<forall>(p, x) \<in> set (outputs operation). spec x = None)"
    unfolding ke using c i o by auto
qed

lemma ports_known:
  assumes look: "\<And>x. x \<in> set (port_definitions d) \<Longrightarrow>
                   map_of (definitions d) (Definition.name x) = Some x"
  shows "\<forall>(k, operation) \<in> set (operations d).
           \<forall>(p, x) \<in> set (inputs operation @ outputs operation).
             map_of (definitions d) (Definition.name x) = Some x"
proof (intro ballI)
  fix e y assume e: "e \<in> set (operations d)"
  obtain k operation where ke: "e = (k, operation)" by (cases e)
  have "map_of (definitions d) (Definition.name x) = Some x"
    if "(p, x) \<in> set (inputs operation @ outputs operation)" for p x
    using look [OF port_member [OF e [unfolded ke] that]] .
  then show "case e of (k, operation) \<Rightarrow>
           \<forall>(p, x) \<in> set (inputs operation @ outputs operation).
             map_of (definitions d) (Definition.name x) = Some x"
    unfolding ke by auto
qed

lemma roundtrip_unlinked:
  assumes conds: "\<forall>(k, operation) \<in> set (operations d). conditions operation = []"
    and no_spec: "\<forall>x \<in> set (port_definitions d). spec x = None"
    and seeds_ok: "\<forall>i \<in> set (seed d). spec (definition i) = None"
  shows "bindE (DataFlow_export rt False d) (DataFlow_fromdict rt)
     = Inr (DataFlow_new rt
              (map (\<lambda>(k, operation). (k, Plain (operation\<lparr>instance_name := Some k\<rparr>)))
                   (operations d))
              (Some (reimported_seed rt (seed d))) (Some (configs d)) (Some (flow d)) None)"
  unfolding export_unlinked [OF conds] bindE_Inr
  by (rule fromdict_plain [OF ops_plain [OF conds no_spec] seeds_ok])

lemma roundtrip_linked:
  assumes built: "d = DataFlow_new rt ops s c f m"
    and keys: "distinct (map fst (operations d))"
    and conds: "\<forall>(k, operation) \<in> set (operations d). conditions operation = []"
    and no_spec: "\<forall>x \<in> set (port_definitions d). spec x = None"
    and seeds_ok: "\<forall>i \<in> set (seed d). spec (definition i) = None"
    and free: "\<forall>a \<in> set (port_definitions d). \<forall>b \<in> set (port_definitions d).
                  Definition.name a = Definition.name b \<longrightarrow> a = b"
    and some: "operations d = [] \<or> port_definitions d \<noteq> []"
  shows "bindE (DataFlow_export rt True d) (DataFlow_fromdict rt)
     = Inr (DataFlow_new rt
              (map (\<lambda>(k, operation). (k, Plain (operation\<lparr>instance_name := Some k\<rparr>)))
                   (operations d))
              (Some (reimported_seed rt (seed d))) (Some (configs d)) (Some (flow d)) None)"
proof -
  have stamped: "\<forall>(k, operation) \<in> set (operations d).
                   instance_name operation = Some k \<and> conditions operation = []"
  proof (intro ballI)
    fix e assume e: "e \<in> set (operations d)"
    obtain k operation where ke: "e = (k, operation)" by (cases e)
    have "conditions operation = []" using conds e ke by auto
    moreover have "instance_name operation = Some k"
      using e unfolding ke built by (auto simp: DataFlow_new_fields)
    ultimately show "case e of (k, operation) \<Rightarrow>
        instance_name operation = Some k \<and> conditions operation = []"
      unfolding ke by simp
  qed
  have look: "map_of (definitions d) (Definition.name x) = Some x"
    if "x \<in> set (port_definitions d)" for x
    using definitions_lookup [OF that [unfolded built] free [unfolded built]]
    unfolding built .
  have some': "operations d = [] \<or> definitions d \<noteq> []"
  proof (cases "port_definitions d")
    case Nil
    with some show ?thesis by simp
  next
    case (Cons x xs)
    then have "map_of (definitions d) (Definition.name x) = Some x"
      by (intro look) simp
    then show ?thesis by auto
  qed
  have known: "\<forall>(k, operation) \<in> set (operations d).
           \<forall>(p, x) \<in> set (inputs operation @ outputs operation).
             map_of (definitions d) (Definition.name x) = Some x"
    by (rule ports_known) (rule look)
  note res = resolve_operations_linked [OF conds known some']
  show ?thesis
    unfolding export_linked [OF keys stamped] bindE_Inr fromdict_linked_reduces [OF res]
    by (rule fromdict_plain [OF ops_plain [OF conds no_spec] seeds_ok])
qed

lemma dataflow0_fields:
  "operations dataflow0 = [(''url_to_rpm'', url_to_rpm\<lparr>instance_name := Some ''url_to_rpm''\<rparr>)]"
  "seed dataflow0 = [produced_file]"
  "port_definitions dataflow0 = [URL, RPMObject]"
  by (simp_all add: dataflow0_def DataFlow_new_fields port_definitions_def url_to_rpm_def)

text \<open>
  C1, as stated, fails, for the linked and for the unlinked form: a DataFlow with one seed
  Input that has parents and a uid comes back with a seed Input that has no parents and a
  newly drawn uid, so the result is not equal to the DataFlow exported.
\<close>

theorem roundtrip_loses_seed_identity:
  "(\<exists>d'. bindE (DataFlow_export runtime0 False dataflow0) (DataFlow_fromdict runtime0) = Inr d'
         \<and> seed d' = [produced_file\<lparr>parents := [], uid := ''uuid-''\<rparr>]
         \<and> \<not> DataFlow_eq d' dataflow0)
   \<and> (\<exists>d'. bindE (DataFlow_export runtime0 True dataflow0) (DataFlow_fromdict runtime0) = Inr d'
         \<and> seed d' = [produced_file\<lparr>parents := [], uid := ''uuid-''\<rparr>]
         \<and> \<not> DataFlow_eq d' dataflow0)"
proof -
  have conds: "\<forall>(k, operation) \<in> set (operations dataflow0). conditions operation = []"
    by (simp add: dataflow0_fields url_to_rpm_def)
  have no_spec: "\<forall>x \<in> set (port_definitions dataflow0). spec x = None"
    by (simp add: dataflow0_fields URL_def RPMObject_def)
  have seeds_ok: "\<forall>i \<in> set (seed dataflow0). spec (definition i) = None"
    by (simp add: dataflow0_fields produced_file_def rpm_filename_def)
  have keys: "distinct (map fst (operations dataflow0))"
    by (simp add: dataflow0_fields)
  have free: "\<forall>a \<in> set (port_definitions dataflow0). \<forall>b \<in> set (port_definitions dataflow0).
                Definition.name a = Definition.name b \<longrightarrow> a = b"
    by (simp add: dataflow0_fields URL_def RPMObject_def)
  have some: "operations dataflow0 = [] \<or> port_definitions dataflow0 \<noteq> []"
    by (simp add: dataflow0_fields)
  have differ: "seed (DataFlow_new runtime0 xs (Some (reimported_seed runtime0 (seed dataflow0))) cfg fl None)
                  = [produced_file\<lparr>parents := [], uid := ''uuid-''\<rparr>]" for xs cfg fl
    by (simp add: DataFlow_new_fields dataflow0_fields reimported_seed_def runtime0_def)
  have neq: "\<not> DataFlow_eq (DataFlow_new runtime0 xs (Some (reimported_seed runtime0 (seed dataflow0))) cfg fl None) dataflow0" for xs cfg fl
    unfolding DataFlow_eq_def differ by (simp add: dataflow0_fields produced_file_def)
  show ?thesis
    unfolding roundtrip_unlinked [OF conds no_spec seeds_ok]
      roundtrip_linked [OF dataflow0_def keys conds no_spec seeds_ok free some]
    using differ neq by blast
qed

text \<open>
  C1, amended. For every DataFlow d built by the constructor from well-formed dicts, whose
  operations have no conditions and whose Definitions carry no spec (and, for the linked
  form, whose port Definitions are determined by their names and are not missing
  altogether when there are operations), DataFlow._fromdict applied to d.export(linked)
  succeeds and yields a DataFlow with the operations, configs, flow and definitions of d;
  its seed Inputs have the values and definitions of those of d, in their order, but no
  parents and newly drawn uids. So the result equals d, on the fields an export carries,
  when d has no seed Inputs.
\<close>

theorem export_import_roundtrip:
  assumes built: "d = DataFlow_new rt ops s c f m"
    and dicts: "dict_ok (operations d)" "dict_ok (configs d)" "dict_ok (flow d)"
      "\<forall>(k, input_flow) \<in> set (flow d). dict_ok input_flow"
    and ops_ok: "\<forall>(k, operation) \<in> set (operations d).
        conditions operation = [] \<and> dict_ok (inputs operation) \<and> dict_ok (outputs operation)"
    and no_spec: "\<forall>x \<in> set (port_definitions d). spec x = None"
    and seeds_ok: "\<forall>i \<in> set (seed d). spec (definition i) = None"
    and linked_ok: "linked \<longrightarrow>
         (\<forall>a \<in> set (port_definitions d). \<forall>b \<in> set (port_definitions d).
            Definition.name a = Definition.name b \<longrightarrow> a = b)
         \<and> (operations d = [] \<or> port_definitions d \<noteq> [])"
  shows "\<exists>d'. bindE (DataFlow_export rt linked d) (DataFlow_fromdict rt) = Inr d'
      \<and> operations d' = operations d \<and> configs d' = configs d \<and> flow d' = flow d
      \<and> definitions d' = definitions d
      \<and> seed d' = reimported_seed rt (seed d)
      \<and> (seed d = [] \<longrightarrow> DataFlow_eq d' d)"
proof -
  let ?d' = "DataFlow_new rt
              (map (\<lambda>(k, operation). (k, Plain (operation\<lparr>instance_name := Some k\<rparr>)))
                   (operations d))
              (Some (reimported_seed rt (seed d))) (Some (configs d)) (Some (flow d)) None"
  have conds: "\<forall>(k, operation) \<in> set (operations d). conditions operation = []"
    using ops_ok by auto
  have "value": "bindE (DataFlow_export rt linked d) (DataFlow_fromdict rt) = Inr ?d'"
  proof (cases linked)
    case False
    then show ?thesis using roundtrip_unlinked [OF conds no_spec seeds_ok] by simp
  next
    case True
    with linked_ok have free: "\<forall>a \<in> set (port_definitions d). \<forall>b \<in> set (port_definitions d).
            Definition.name a = Definition.name b \<longrightarrow> a = b"
      and some: "operations d = [] \<or> port_definitions d \<noteq> []" by blast+
    from True show ?thesis
      using roundtrip_linked [OF built dicts(1) [unfolded dict_ok_def] conds no_spec seeds_ok free some]
      by simp
  qed
  note fields = reimport_fields [OF built refl, of "reimported_seed rt (seed d)"]
  have ops_refl: "dict_eq Operation_eq (operations d) (operations d)"
  proof (rule dict_eq_refl)
    show "distinct (map fst (operations d))" using dicts(1) by (simp add: dict_ok_def)
  next
    fix k operation assume "(k, operation) \<in> set (operations d)"
    with ops_ok have "dict_ok (inputs operation)" "dict_ok (outputs operation)" by auto
    then show "Operation_eq operation operation"
      by (intro Operation_eq_refl) (simp_all add: dict_ok_def)
  qed
  have cfg_refl: "dict_eq (=) (configs d) (configs d)"
    using dicts(2) by (intro dict_eq_refl) (simp_all add: dict_ok_def)
  have defs_refl: "dict_eq (=) (definitions d) (definitions d)"
    unfolding built definitions_DataFlow_new
    by (intro dict_eq_refl) (simp_all add: distinct_dict_comprehension)
  have flow_refl: "dict_eq (dict_eq (=)) (flow d) (flow d)"
  proof (rule dict_eq_refl)
    show "distinct (map fst (flow d))" using dicts(3) by (simp add: dict_ok_def)
  next
    fix k input_flow assume "(k, input_flow) \<in> set (flow d)"
    with dicts(4) have "dict_ok input_flow" by auto
    then show "dict_eq (=) input_flow input_flow"
      by (intro dict_eq_refl) (simp_all add: dict_ok_def)
  qed
  have "DataFlow_eq ?d' d" if "seed d = []"
    unfolding DataFlow_eq_def fields
    using ops_refl cfg_refl defs_refl flow_refl that by (simp add: reimported_seed_def)
  with "value" fields show ?thesis by blast
qed

lemma dataflow1_fields:
  "operations dataflow1 =
     [(''url_to_rpm'', url_to_rpm\<lparr>instance_name := Some ''url_to_rpm''\<rparr>),
      (''zip_to_rpm'', zip_to_rpm\<lparr>instance_name := Some ''zip_to_rpm''\<rparr>)]"
  "seed dataflow1 = []"
  "configs dataflow1 = [(''url_to_rpm'', JDict [(''timeout'', JInt 30)])]"
  "flow dataflow1 = [(''url_to_rpm'', [(''URL'', [''seed''])]), (''zip_to_rpm'', [(''archive'', [''seed''])])]"
  "port_definitions dataflow1 = [URL, RPMObject, URL, RPMObject]"
  by (simp_all add: dataflow1_def DataFlow_new_fields port_definitions_def url_to_rpm_def
        zip_to_rpm_def flow_dict_of_def output_dict_of_def wire_operation_def record_output_def
        input_sources_def producer_entries_def dict_set_def URL_def RPMObject_def)

theorem export_import_roundtrip_witness:
  "\<exists>d'. bindE (DataFlow_export runtime0 True dataflow1) (DataFlow_fromdict runtime0) = Inr d'
      \<and> DataFlow_eq d' dataflow1"
proof -
  have dicts: "dict_ok (operations dataflow1)" "dict_ok (configs dataflow1)"
      "dict_ok (flow dataflow1)" "\<forall>(k, input_flow) \<in> set (flow dataflow1). dict_ok input_flow"
    by (simp_all add: dataflow1_fields dict_ok_def)
  have ops_ok: "\<forall>(k, operation) \<in> set (operations dataflow1).
        conditions operation = [] \<and> dict_ok (inputs operation) \<and> dict_ok (outputs operation)"
    by (simp add: dataflow1_fields dict_ok_def url_to_rpm_def zip_to_rpm_def)
  have no_spec: "\<forall>x \<in> set (port_definitions dataflow1). spec x = None"
    by (simp add: dataflow1_fields URL_def RPMObject_def)
  have seeds_ok: "\<forall>i \<in> set (seed dataflow1). spec (definition i) = None"
    by (simp add: dataflow1_fields)
  have linked_ok: "True \<longrightarrow>
         (\<forall>a \<in> set (port_definitions dataflow1). \<forall>b \<in> set (port_definitions dataflow1).
            Definition.name a = Definition.name b \<longrightarrow> a = b)
         \<and> (operations dataflow1 = [] \<or> port_definitions dataflow1 \<noteq> [])"
    by (simp add: dataflow1_fields URL_def RPMObject_def)
  from export_import_roundtrip [OF dataflow1_def dicts ops_ok no_spec seeds_ok linked_ok]
  show ?thesis by (auto simp: dataflow1_fields)
qed

end
